theory Spec2Isabelle
  imports
    Complex_Main
    "HOL-Library.Multiset"
    "HOL-Library.Product_Lexorder"
    "HOL-Library.List_Lexorder"
    "HOL-Library.Char_ord"
    "HOL-Library.Log_Nat"
begin

section \<open>Data model\<close>

text \<open>
  The analytics of the Priorities Tracker work on two tables read from a spreadsheet:
  the activity log (columns Timestamp, Priority, Activity_Description, Duration, Remarks)
  and the schedule (columns Date, Time, Priority, Planned_Activity, Planned_Duration,
  Schedule_Type, Status). A pandas data frame is modelled as the list of its rows, in
  row order.

  A calendar date is the number of days since 1970-01-01. A timestamp is the number of
  whole seconds of wall-clock time since 1970-01-01 00:00:00 (the log is written with
  \<^verbatim>\<open>strftime("%Y-%m-%d %H:%M:%S")\<close>). Durations are float64 values in the source; a
  float64 value is modelled by the rational number it denotes. The total of the log,
  whose dependence on the order of the rows is at issue, is added with the rounding of
  float64 addition. The sums, means and quotients of the other operations are exact:
  their rounding errors are outside this model.
\<close>

type_synonym date = int
type_synonym timestamp = int

record activity =
  Timestamp :: timestamp
  Priority :: string
  Activity_Description :: string
  Duration :: rat
  Remarks :: string

datatype schedule_type = One_time | Daily | Weekly

record schedule =
  Date :: date
  Time :: string
  sPriority :: string
  Planned_Activity :: string
  Planned_Duration :: rat
  Schedule_Type :: schedule_type
  Status :: string

datatype error = ValueError | IndexError | TypeError

text \<open>\<^verbatim>\<open>Timestamp.dt.date\<close>: the calendar date of a wall-clock timestamp.\<close>

definition date_of :: "timestamp \<Rightarrow> date" where
  "date_of t = t div 86400"

text \<open>
  The proleptic Gregorian calendar as Python's \<^verbatim>\<open>datetime.date\<close> has it: the day number
  of year \<open>y\<close>, month \<open>m\<close>, day \<open>d\<close>. It is used to write the dates of examples legibly.
\<close>

definition days_from_civil :: "int \<Rightarrow> int \<Rightarrow> int \<Rightarrow> date" where
  "days_from_civil y m d =
     (let y' = (if m \<le> 2 then y - 1 else y);
          era = y' div 400;
          yoe = y' - era * 400;
          doy = (153 * (if m > 2 then m - 3 else m + 9) + 2) div 5 + d - 1;
          doe = yoe * 365 + yoe div 4 - yoe div 100 + doy
      in era * 146097 + doe - 719468)"

text \<open>\<^verbatim>\<open>date.strftime("%A")\<close>: 1970-01-01 was a Thursday.\<close>

definition weekday_names :: "string list" where
  "weekday_names =
     [''Monday'', ''Tuesday'', ''Wednesday'', ''Thursday'', ''Friday'', ''Saturday'', ''Sunday'']"

definition weekday_name :: "date \<Rightarrow> string" where
  "weekday_name d = weekday_names ! nat ((d + 3) mod 7)"

section \<open>The pandas operations the analytics use\<close>

text \<open>\<^verbatim>\<open>Series.unique()\<close>: the distinct values in order of first appearance.\<close>

definition unique :: "'a list \<Rightarrow> 'a list" where
  "unique xs = rev (remdups (rev xs))"

text \<open>
  The sum of the values of a group of a group-by, in exact arithmetic: accumulated from 0
  in row order, 0 for no values.
\<close>

definition series_sum :: "rat list \<Rightarrow> rat" where
  "series_sum xs = fold (\<lambda>x acc. acc + x) xs 0"

text \<open>
  The mean of the values of a group, in exact arithmetic; the groups of a group-by are
  never empty.
\<close>

definition series_mean :: "rat list \<Rightarrow> rat" where
  "series_mean xs = series_sum xs / of_nat (length xs)"

text \<open>\<^verbatim>\<open>Series.max()\<close> and \<^verbatim>\<open>Series.min()\<close> of a timestamp column; \<open>None\<close> is \<^verbatim>\<open>NaT\<close>.\<close>

definition col_max :: "int list \<Rightarrow> int option" where
  "col_max xs = (case xs of [] \<Rightarrow> None | x # rest \<Rightarrow> Some (fold max rest x))"

definition col_min :: "int list \<Rightarrow> int option" where
  "col_min xs = (case xs of [] \<Rightarrow> None | x # rest \<Rightarrow> Some (fold min rest x))"

text \<open>
  \<^verbatim>\<open>df.groupby(keys)[col].sum().reset_index()\<close>: one row per distinct key, the keys in
  ascending order (\<^verbatim>\<open>sort=True\<close> is the default), with the sum of the column over the
  rows of that key.
\<close>

definition groupby_sum :: "('r \<Rightarrow> 'k::linorder) \<Rightarrow> ('r \<Rightarrow> rat) \<Rightarrow> 'r list \<Rightarrow> ('k \<times> rat) list" where
  "groupby_sum key col df =
     map (\<lambda>k. (k, series_sum (map col (filter (\<lambda>r. key r = k) df))))
       (sort (remdups (map key df)))"

definition groupby_mean :: "('r \<Rightarrow> 'k::linorder) \<Rightarrow> ('r \<Rightarrow> rat) \<Rightarrow> 'r list \<Rightarrow> ('k \<times> rat) list" where
  "groupby_mean key col df =
     map (\<lambda>k. (k, series_mean (map col (filter (\<lambda>r. key r = k) df))))
       (sort (remdups (map key df)))"

text \<open>
  \<^verbatim>\<open>Series.idxmax()\<close>: the index label of the first occurrence of the maximum; it raises
  \<^verbatim>\<open>ValueError\<close> on an empty series.
\<close>

fun idxmax_loop :: "('k \<times> rat) list \<Rightarrow> 'k \<times> rat \<Rightarrow> 'k \<times> rat" where
  "idxmax_loop [] best = best"
| "idxmax_loop ((k, v) # rest) (bk, bv) =
     (if v > bv then idxmax_loop rest (k, v) else idxmax_loop rest (bk, bv))"

definition idxmax :: "('k \<times> rat) list \<Rightarrow> error + 'k" where
  "idxmax s = (case s of [] \<Rightarrow> Inl ValueError | kv # rest \<Rightarrow> Inr (fst (idxmax_loop rest kv)))"

text \<open>
  \<^verbatim>\<open>pd.merge(left, right, on=keys, how='outer')\<close> of two frames whose keys are unique
  (both sides come from a group-by): one row per key of either side, keys in ascending
  order; a column of the side that lacks the key is \<^verbatim>\<open>NaN\<close>, here \<open>None\<close>.
\<close>

definition merge_outer ::
    "('k::linorder \<times> rat) list \<Rightarrow> ('k \<times> rat) list \<Rightarrow> ('k \<times> rat option \<times> rat option) list" where
  "merge_outer left right =
     map (\<lambda>k. (k, map_of left k, map_of right k))
       (sort (remdups (map fst left @ map fst right)))"

definition fillna :: "rat \<Rightarrow> rat option \<Rightarrow> rat" where
  "fillna v x = (case x of None \<Rightarrow> v | Some y \<Rightarrow> y)"

text \<open>
  Division of two float columns: dividing by zero raises nothing in pandas, it yields a
  non-finite value (\<^verbatim>\<open>inf\<close> or \<^verbatim>\<open>NaN\<close>), here \<open>None\<close>.
\<close>

definition pd_div :: "rat \<Rightarrow> rat \<Rightarrow> rat option" where
  "pd_div a b = (if b = 0 then None else Some (a / b))"

text \<open>\<^verbatim>\<open>Series.round(2)\<close>: to two decimal places, a tie going to the even neighbour.\<close>

definition round_half_even :: "rat \<Rightarrow> int" where
  "round_half_even x =
     (let f = \<lfloor>x\<rfloor>; r = x - of_int f
      in if r < 1 / 2 then f else if r > 1 / 2 then f + 1 else if even f then f else f + 1)"

definition round2 :: "rat \<Rightarrow> rat" where
  "round2 x = of_int (round_half_even (x * 100)) / 100"

section \<open>Float64 addition and the sum of a column\<close>

text \<open>
  IEEE 754 binary64 arithmetic, round to nearest with ties to even: the result of an
  addition is the exact sum rounded to 53 significant bits. \<open>float_exponent x\<close> is the
  exponent \<open>e\<close> with \<open>2 ^ e \<le> \<bar>x\<bar> < 2 ^ (e + 1)\<close>. Overflow and subnormal numbers are
  outside the model: durations in hours are far from both.
\<close>

definition float_exponent :: "rat \<Rightarrow> int" where
  "float_exponent x =
     (let p = fst (quotient_of \<bar>x\<bar>); q = snd (quotient_of \<bar>x\<bar>);
          d = bitlen p - bitlen q
      in if 2 powi d \<le> \<bar>x\<bar> then d else d - 1)"

definition round_to_double :: "rat \<Rightarrow> rat" where
  "round_to_double x =
     (if x = 0 then 0
      else let ulp = 2 powi (float_exponent x - 52)
           in of_int (round_half_even (x / ulp)) * ulp)"

definition fadd :: "rat \<Rightarrow> rat \<Rightarrow> rat" where
  "fadd a b = round_to_double (a + b)"

text \<open>
  \<^verbatim>\<open>Series.sum()\<close> of a float64 column without missing values is \<^verbatim>\<open>numpy.add.reduce\<close>,
  which starts from 0 and adds the pairwise sum of the values: fewer than 8 values are
  added one after the other in row order; up to 128 values are added into eight running
  sums, which are then combined in pairs, and the values left over are added one after
  the other; a longer column is cut in two near the middle, at a multiple of 8. The
  functions take the addition as a parameter, so that the same summation can be run with
  float64 addition, with exact addition, and with float64 addition that records whether
  a sum was rounded.
\<close>

definition add_rest :: "('a \<Rightarrow> 'a \<Rightarrow> 'a) \<Rightarrow> 'a \<Rightarrow> 'a list \<Rightarrow> 'a" where
  "add_rest add res xs = fold (\<lambda>x res. add res x) xs res"

function accumulate8 :: "('a \<Rightarrow> 'a \<Rightarrow> 'a) \<Rightarrow> 'a list \<Rightarrow> 'a list \<Rightarrow> 'a list \<times> 'a list" where
  "accumulate8 add r xs =
     (if 8 \<le> length xs then accumulate8 add (map2 add r (take 8 xs)) (drop 8 xs)
      else (r, xs))"
  by pat_completeness auto
termination
  by (relation "measure (\<lambda>(add, r, xs). length xs)") auto

declare accumulate8.simps [simp del]

definition combine8 :: "('a \<Rightarrow> 'a \<Rightarrow> 'a) \<Rightarrow> 'a list \<Rightarrow> 'a" where
  "combine8 add r =
     add (add (add (r ! 0) (r ! 1)) (add (r ! 2) (r ! 3)))
         (add (add (r ! 4) (r ! 5)) (add (r ! 6) (r ! 7)))"

function pairwise_sum :: "'a \<Rightarrow> ('a \<Rightarrow> 'a \<Rightarrow> 'a) \<Rightarrow> 'a list \<Rightarrow> 'a" where
  "pairwise_sum z add a =
     (if length a < 8 then add_rest add z a
      else if length a \<le> 128 then
        add_rest add (combine8 add (fst (accumulate8 add (take 8 a) (drop 8 a))))
          (snd (accumulate8 add (take 8 a) (drop 8 a)))
      else add (pairwise_sum z add (take (length a div 2 - length a div 2 mod 8) a))
               (pairwise_sum z add (drop (length a div 2 - length a div 2 mod 8) a)))"
  by pat_completeness auto
termination
  by (relation "measure (\<lambda>(z, add, a). length a)") auto

declare pairwise_sum.simps [simp del]

definition add_reduce :: "'a \<Rightarrow> ('a \<Rightarrow> 'a \<Rightarrow> 'a) \<Rightarrow> 'a list \<Rightarrow> 'a" where
  "add_reduce z add a = add z (pairwise_sum z add a)"

definition float64_sum :: "rat list \<Rightarrow> rat" where
  "float64_sum xs = add_reduce 0 fadd xs"

section \<open>KPI calculator: \<^verbatim>\<open>calculate_kpis\<close>\<close>

text \<open>
  The function is the same in \<^verbatim>\<open>latestapp_v2.py\<close>, \<^verbatim>\<open>more_featgpt.py\<close> and
  \<^verbatim>\<open>final_appwdb_feat.py\<close>. \<^verbatim>\<open>(max - min).days\<close> is the number of whole 24-hour
  periods in the time between the two timestamps. On an empty frame the difference is
  \<^verbatim>\<open>NaT\<close>, \<^verbatim>\<open>date_range > 0\<close> is false and the average is 0; the function then fails
  at \<^verbatim>\<open>idxmax()\<close>. \<^verbatim>\<open>df['Duration'].sum()\<close> is the float64 sum of the column.
\<close>

record kpis =
  total_hours :: rat
  avg_hours_per_day :: rat
  priority_averages :: "(string \<times> rat) list"
  most_active_priority :: string

definition kpi_total_hours :: "activity list \<Rightarrow> rat" where
  "kpi_total_hours df = float64_sum (map Duration df)"

definition date_range :: "activity list \<Rightarrow> int option" where
  "date_range df =
     (case (col_max (map Timestamp df), col_min (map Timestamp df)) of
        (Some mx, Some mn) \<Rightarrow> Some ((mx - mn) div 86400 + 1)
      | _ \<Rightarrow> None)"

definition kpi_avg_hours_per_day :: "activity list \<Rightarrow> rat" where
  "kpi_avg_hours_per_day df =
     (case date_range df of
        Some n \<Rightarrow> if n > 0 then kpi_total_hours df / of_int n else 0
      | None \<Rightarrow> 0)"

definition priority_daily_totals :: "activity list \<Rightarrow> ((date \<times> string) \<times> rat) list" where
  "priority_daily_totals df = groupby_sum (\<lambda>r. (date_of (Timestamp r), Priority r)) Duration df"

definition kpi_priority_averages :: "activity list \<Rightarrow> (string \<times> rat) list" where
  "kpi_priority_averages df = groupby_mean (\<lambda>kv. snd (fst kv)) snd (priority_daily_totals df)"

definition kpi_most_active_priority :: "activity list \<Rightarrow> error + string" where
  "kpi_most_active_priority df = idxmax (groupby_sum Priority Duration df)"

definition calculate_kpis :: "activity list \<Rightarrow> error + kpis" where
  "calculate_kpis df =
     (let total = kpi_total_hours df;
          avg = kpi_avg_hours_per_day df;
          priority_avgs = kpi_priority_averages df
      in case kpi_most_active_priority df of
           Inl e \<Rightarrow> Inl e
         | Inr most_active \<Rightarrow>
             Inr \<lparr>total_hours = total, avg_hours_per_day = avg,
                  priority_averages = priority_avgs, most_active_priority = most_active\<rparr>)"

section \<open>Streak detector: \<^verbatim>\<open>calculate_streaks\<close>\<close>

record streak =
  current_streak :: int
  max_streak :: int
  last_activity :: date

text \<open>The \<^verbatim>\<open>for date in priority_dates[1:]\<close> loop, on its three variables.\<close>

fun streak_loop :: "date list \<Rightarrow> int \<times> int \<times> date \<Rightarrow> int \<times> int \<times> date" where
  "streak_loop [] s = s"
| "streak_loop (d # rest) (current, mx, last_date) =
     (if d - last_date = 1
      then streak_loop rest (current + 1, max mx (current + 1), d)
      else streak_loop rest (1, mx, d))"

definition priority_dates :: "activity list \<Rightarrow> string \<Rightarrow> date list" where
  "priority_dates df priority =
     sort (unique (map (\<lambda>r. date_of (Timestamp r)) (filter (\<lambda>r. Priority r = priority) df)))"

text \<open>The body of the loop over the priorities; \<^verbatim>\<open>priority_dates[0]\<close> raises on an empty list.\<close>

definition priority_streak :: "activity list \<Rightarrow> string \<Rightarrow> error + streak" where
  "priority_streak df priority =
     (case priority_dates df priority of
        [] \<Rightarrow> Inl IndexError
      | d0 # rest \<Rightarrow>
          (case streak_loop rest (1, 1, d0) of
             (current, mx, last_date) \<Rightarrow>
               Inr \<lparr>current_streak = current, max_streak = mx,
                    last_activity = fold max rest d0\<rparr>))"

text \<open>Filling the dictionary, in the order of the priorities; an exception ends the loop.\<close>

fun streaks_loop :: "activity list \<Rightarrow> string list \<Rightarrow> error + (string \<times> streak) list" where
  "streaks_loop df [] = Inr []"
| "streaks_loop df (p # ps) =
     (case priority_streak df p of
        Inl e \<Rightarrow> Inl e
      | Inr s \<Rightarrow> (case streaks_loop df ps of Inl e \<Rightarrow> Inl e | Inr m \<Rightarrow> Inr ((p, s) # m)))"

definition calculate_streaks :: "activity list \<Rightarrow> error + (string \<times> streak) list" where
  "calculate_streaks df =
     (if df = [] then Inr [] else streaks_loop df (unique (map Priority df)))"

section \<open>Plan-vs-actual reconciler\<close>

subsection \<open>\<^verbatim>\<open>create_plan_vs_actual_analysis\<close> of \<^verbatim>\<open>latestapp_v2.py\<close>\<close>

text \<open>
  The function loads the two sheets, checks that the frames have the columns
  \<^verbatim>\<open>Duration\<close> and \<^verbatim>\<open>Planned_Duration\<close>, applies the time filter to both frames and
  joins them into \<^verbatim>\<open>comparison_df\<close>. The model takes the two frames as loaded and
  the current time of the canonical zone. A sheet without data rows loads as a frame
  without columns (\<^verbatim>\<open>get_all_records()\<close> returns an empty list), so on the empty frame a
  column check fails, the function reports the missing column with \<^verbatim>\<open>st.error\<close> (\<open>Inl\<close>
  holds the message) and returns; the rows of a non-empty frame carry the columns of
  the record type. The time filter can leave a frame with columns and no rows. Both
  \<^verbatim>\<open>Date\<close> columns are midnights of the canonical zone when the frames are joined, so
  joining on them is joining on the calendar date.
\<close>

datatype time_filter = Last_7_days | Last_30_days | Last_90_days | All_time

text \<open>\<^verbatim>\<open>int(time_filter.split()[1])\<close>, for a filter other than "All time".\<close>

fun filter_days :: "time_filter \<Rightarrow> int option" where
  "filter_days Last_7_days = Some 7"
| "filter_days Last_30_days = Some 30"
| "filter_days Last_90_days = Some 90"
| "filter_days All_time = None"

text \<open>\<^verbatim>\<open>cutoff_date = (datetime.now(IST) - timedelta(days=days)).date()\<close> and the two filters.\<close>

definition filter_schedule :: "time_filter \<Rightarrow> timestamp \<Rightarrow> schedule list \<Rightarrow> schedule list" where
  "filter_schedule time_filter now schedule_df =
     (case filter_days time_filter of
        None \<Rightarrow> schedule_df
      | Some days \<Rightarrow> filter (\<lambda>s. Date s \<ge> date_of (now - days * 86400)) schedule_df)"

definition filter_logged :: "time_filter \<Rightarrow> timestamp \<Rightarrow> activity list \<Rightarrow> activity list" where
  "filter_logged time_filter now logged_df =
     (case filter_days time_filter of
        None \<Rightarrow> logged_df
      | Some days \<Rightarrow>
          filter (\<lambda>r. date_of (Timestamp r) \<ge> date_of (now - days * 86400)) logged_df)"

record comparison =
  cDate :: date
  cPriority :: string
  cPlanned_Duration :: rat
  cDuration_actual :: rat
  cDifference :: rat

definition planned_hours :: "schedule list \<Rightarrow> ((date \<times> string) \<times> rat) list" where
  "planned_hours schedule_df = groupby_sum (\<lambda>s. (Date s, sPriority s)) Planned_Duration schedule_df"

definition actual_hours :: "activity list \<Rightarrow> ((date \<times> string) \<times> rat) list" where
  "actual_hours logged_df = groupby_sum (\<lambda>r. (date_of (Timestamp r), Priority r)) Duration logged_df"

definition comparison_row :: "(date \<times> string) \<times> rat option \<times> rat option \<Rightarrow> comparison" where
  "comparison_row m =
     (let planned = fillna 0 (fst (snd m)); actual = fillna 0 (snd (snd m))
      in \<lparr>cDate = fst (fst m), cPriority = snd (fst m), cPlanned_Duration = planned,
          cDuration_actual = actual, cDifference = actual - planned\<rparr>)"

definition comparison_df :: "schedule list \<Rightarrow> activity list \<Rightarrow> comparison list" where
  "comparison_df schedule_df logged_df =
     map comparison_row (merge_outer (planned_hours schedule_df) (actual_hours logged_df))"

definition create_plan_vs_actual_analysis ::
    "time_filter \<Rightarrow> timestamp \<Rightarrow> schedule list \<Rightarrow> activity list \<Rightarrow> string + comparison list" where
  "create_plan_vs_actual_analysis time_filter now schedule_df logged_df =
     (if logged_df = [] then
        Inl ''The 'Duration' column is missing in the logged activities data.''
      else if schedule_df = [] then
        Inl ''The 'Planned_Duration' column is missing in the schedule data.''
      else
        Inr (comparison_df (filter_schedule time_filter now schedule_df)
               (filter_logged time_filter now logged_df)))"

subsection \<open>\<^verbatim>\<open>analyze_schedule_vs_actual\<close> of \<^verbatim>\<open>more_featgpt.py\<close>\<close>

text \<open>
  The function warns and returns when either frame is empty (\<open>Inl\<close> holds the warning).
  Otherwise it builds \<^verbatim>\<open>comparison\<close>, whose completion rate starts as 0.0 and is
  overwritten on the rows selected by \<^verbatim>\<open>mask = Planned_Duration > 0\<close>. The column can
  hold a non-finite float (\<open>None\<close>) only if a division by zero is carried out.
  \<^verbatim>\<open>sort_values('Date')\<close> reorders the rows by date; pandas leaves the order of rows of
  the same date open, and it is taken to be the stable one here.
\<close>

record adherence =
  aDate :: date
  aPriority :: string
  aPlanned_Duration :: rat
  aDuration :: rat
  aCompletion_Rate :: "rat option"

definition Completion_Rate :: "rat \<Rightarrow> rat \<Rightarrow> rat option" where
  "Completion_Rate planned duration =
     (if planned > 0 then map_option (\<lambda>q. round2 (q * 100)) (pd_div duration planned)
      else Some 0)"

definition adherence_row :: "(date \<times> string) \<times> rat option \<times> rat option \<Rightarrow> adherence" where
  "adherence_row m =
     (let planned = fillna 0 (fst (snd m)); actual = fillna 0 (snd (snd m))
      in \<lparr>aDate = fst (fst m), aPriority = snd (fst m), aPlanned_Duration = planned,
          aDuration = actual, aCompletion_Rate = Completion_Rate planned actual\<rparr>)"

definition analyze_schedule_vs_actual :: "activity list \<Rightarrow> schedule list \<Rightarrow> string + adherence list" where
  "analyze_schedule_vs_actual activity_df schedule_df =
     (if schedule_df = [] then
        Inl ''No scheduled activities found. Please add some activities to your schedule.''
      else if activity_df = [] then
        Inl ''No logged activities found. Please log some activities to see the comparison.''
      else
        Inr (map adherence_row
              (sort_key (\<lambda>m. fst (fst m))
                 (merge_outer (planned_hours schedule_df) (actual_hours activity_df)))))"

section \<open>Time normalizer: the conversions of \<^verbatim>\<open>load_data\<close>\<close>

text \<open>
  What \<^verbatim>\<open>pd.to_datetime\<close> returns for a cell: a naive wall-clock time, or a wall-clock
  time with its offset from UTC in seconds. The instant of an aware value is its wall
  clock minus its offset. The canonical zone \<^verbatim>\<open>Asia/Kolkata\<close> is UTC+05:30 with no
  daylight saving time. The source tests \<^verbatim>\<open>.dt.tz is None\<close> on the column; the model
  follows one cell of a column whose cells are all naive or all aware.
\<close>

datatype raw_time = Naive timestamp | Aware timestamp int

definition UTC :: int where
  "UTC = 0"

definition IST :: int where
  "IST = 19800"

fun instant :: "raw_time \<Rightarrow> int option" where
  "instant (Naive w) = None"
| "instant (Aware w off) = Some (w - off)"

fun wall_clock :: "raw_time \<Rightarrow> timestamp" where
  "wall_clock (Naive w) = w"
| "wall_clock (Aware w off) = w"

text \<open>\<^verbatim>\<open>.dt.tz_localize\<close> raises \<^verbatim>\<open>TypeError\<close> on aware values, \<^verbatim>\<open>.dt.tz_convert\<close> on naive ones.\<close>

fun tz_localize :: "int \<Rightarrow> raw_time \<Rightarrow> error + raw_time" where
  "tz_localize tz (Naive w) = Inr (Aware w tz)"
| "tz_localize tz (Aware w off) = Inl TypeError"

fun tz_convert :: "int \<Rightarrow> raw_time \<Rightarrow> error + raw_time" where
  "tz_convert tz (Naive w) = Inl TypeError"
| "tz_convert tz (Aware w off) = Inr (Aware (w - off + tz) tz)"

fun is_naive :: "raw_time \<Rightarrow> bool" where
  "is_naive (Naive w) = True"
| "is_naive (Aware w off) = False"

text \<open>\<^verbatim>\<open>load_data\<close> of \<^verbatim>\<open>latestapp_v2.py\<close>, on the \<^verbatim>\<open>Timestamp\<close> and on the \<^verbatim>\<open>Date\<close> column.\<close>

definition load_data_v2_Timestamp :: "raw_time \<Rightarrow> error + raw_time" where
  "load_data_v2_Timestamp t =
     (if is_naive t
      then (case tz_localize UTC t of Inl e \<Rightarrow> Inl e | Inr u \<Rightarrow> tz_convert IST u)
      else tz_convert IST t)"

definition load_data_v2_Date :: "raw_time \<Rightarrow> error + raw_time" where
  "load_data_v2_Date t = (if is_naive t then tz_localize IST t else tz_convert IST t)"

text \<open>\<^verbatim>\<open>load_data\<close> of \<^verbatim>\<open>more_featgpt.py\<close>, on the \<^verbatim>\<open>Timestamp\<close> column.\<close>

definition load_data_gpt_Timestamp :: "raw_time \<Rightarrow> error + raw_time" where
  "load_data_gpt_Timestamp t = tz_localize IST t"

section \<open>Schedule expansion: the button handler of \<^verbatim>\<open>create_schedule_section\<close>\<close>

text \<open>
  The values of the widgets of \<^verbatim>\<open>more_featgpt.py\<close> when "Add to Schedule" is pressed.
  The schedule sheet is the list of its rows and \<^verbatim>\<open>append_row\<close> adds one at the end;
  the spreadsheet service is taken to be reachable, so the handler's \<^verbatim>\<open>except\<close> branch,
  which reports a failure of that service, is not part of the model. The date widgets
  only offer dates within ten years of today, far from the bounds of Python's dates.
\<close>

record schedule_form =
  f_schedule_type :: schedule_type
  f_date :: date
  f_day :: string
  f_start_date :: date
  f_end_date :: date
  f_priority :: string
  f_planned_activity :: string
  f_planned_duration :: rat
  f_planned_time :: string

datatype message = St_success string | St_error string

definition new_row :: "schedule_form \<Rightarrow> date \<Rightarrow> schedule" where
  "new_row form d =
     \<lparr>Date = d, Time = f_planned_time form, sPriority = f_priority form,
      Planned_Activity = f_planned_activity form, Planned_Duration = f_planned_duration form,
      Schedule_Type = f_schedule_type form, Status = ''Pending''\<rparr>"

text \<open>\<^verbatim>\<open>for i in range(7)\<close>, from \<^verbatim>\<open>current_date = datetime.now(ist).date()\<close>.\<close>

definition daily_loop :: "schedule_form \<Rightarrow> date \<Rightarrow> schedule list \<Rightarrow> schedule list" where
  "daily_loop form current_date sheet =
     fold (\<lambda>i sh. sh @ [new_row form (current_date + int i)]) [0..<7] sheet"

text \<open>\<^verbatim>\<open>while current_date <= end_date\<close>.\<close>

function weekly_loop :: "schedule_form \<Rightarrow> date \<Rightarrow> date \<Rightarrow> schedule list \<Rightarrow> schedule list" where
  "weekly_loop form current_date end_date sheet =
     (if current_date \<le> end_date
      then weekly_loop form (current_date + 1) end_date
             (if weekday_name current_date = f_day form
              then sheet @ [new_row form current_date] else sheet)
      else sheet)"
  by pat_completeness auto
termination
  by (relation "measure (\<lambda>(form, current_date, end_date, sheet). nat (end_date - current_date + 1))")
    auto

declare weekly_loop.simps [simp del]

definition add_to_schedule ::
    "schedule_form \<Rightarrow> date \<Rightarrow> schedule list \<Rightarrow> schedule list \<times> message" where
  "add_to_schedule form today sheet =
     ((case f_schedule_type form of
         One_time \<Rightarrow> sheet @ [new_row form (f_date form)]
       | Daily \<Rightarrow> daily_loop form today sheet
       | Weekly \<Rightarrow> weekly_loop form (f_start_date form) (f_end_date form) sheet),
      St_success ''Schedule added successfully!'')"

section \<open>Example data\<close>

text \<open>A log entry at the given date and time of day; the two text columns are left empty.\<close>

definition entry :: "int \<Rightarrow> int \<Rightarrow> int \<Rightarrow> int \<Rightarrow> int \<Rightarrow> string \<Rightarrow> rat \<Rightarrow> activity" where
  "entry y m d hh mm p dur =
     \<lparr>Timestamp = days_from_civil y m d * 86400 + hh * 3600 + mm * 60, Priority = p,
      Activity_Description = [], Duration = dur, Remarks = []\<rparr>"

definition example_log :: "activity list" where
  "example_log =
     [entry 2025 1 1 7 0 ''Fitness'' 1,
      entry 2025 1 2 7 0 ''Fitness'' (1 / 2),
      entry 2025 1 2 10 0 ''Career'' 3,
      entry 2025 1 3 7 0 ''Fitness'' 1,
      entry 2025 1 5 7 0 ''Fitness'' (3 / 2),
      entry 2025 1 5 9 0 ''Career'' 1]"





definition monday_form :: schedule_form where
  "monday_form =
     \<lparr>f_schedule_type = Weekly, f_date = days_from_civil 2025 1 4, f_day = ''Monday'',
      f_start_date = days_from_civil 2025 1 6, f_end_date = days_from_civil 2025 1 20,
      f_priority = ''Fitness'', f_planned_activity = ''Morning run'',
      f_planned_duration = 3 / 4, f_planned_time = ''07:00''\<rparr>"

definition backwards_form :: schedule_form where
  "backwards_form =
     monday_form\<lparr>f_start_date := days_from_civil 2025 1 20,
                 f_end_date := days_from_civil 2025 1 6\<rparr>"

definition daily_form :: schedule_form where
  "daily_form = monday_form\<lparr>f_schedule_type := Daily\<rparr>"

text \<open>A cell of a timestamp column without zone information: 2025-01-01 20:00:00.\<close>

definition evening_cell :: raw_time where
  "evening_cell = Naive (days_from_civil 2025 1 1 * 86400 + 20 * 3600)"

text \<open>A cell that carries a zone: 2025-01-01 20:00:00+00:00.\<close>

definition utc_cell :: raw_time where
  "utc_cell = Aware (days_from_civil 2025 1 1 * 86400 + 20 * 3600) 0"

definition plan :: "int \<Rightarrow> int \<Rightarrow> int \<Rightarrow> string \<Rightarrow> rat \<Rightarrow> schedule" where
  "plan y m d p dur =
     \<lparr>Date = days_from_civil y m d, Time = ''09:00'', sPriority = p, Planned_Activity = [],
      Planned_Duration = dur, Schedule_Type = One_time, Status = ''Pending''\<rparr>"

definition february_plan :: "schedule list" where
  "february_plan =
     [plan 2025 2 1 ''Career'' 2,
      plan 2025 2 2 ''Fitness'' 3,
      plan 2025 2 3 ''Career'' 0]"

definition february_log :: "activity list" where
  "february_log =
     [entry 2025 2 2 18 0 ''Fitness'' 1,
      entry 2025 2 3 10 0 ''Career'' 3,
      entry 2025 2 4 21 0 ''Music'' 1]"

text \<open>Noon of 2025-02-09: seven days back is 2025-02-02.\<close>

definition february_now :: timestamp where
  "february_now = days_from_civil 2025 2 9 * 86400 + 12 * 3600"

text \<open>Three records of 0.1, 0.2 and 0.3 hours, each the float64 value of its decimal.\<close>

definition tenths_log :: "activity list" where
  "tenths_log =
     [entry 2025 3 1 9 0 ''Music'' (round_to_double (1 / 10)),
      entry 2025 3 1 10 0 ''Music'' (round_to_double (2 / 10)),
      entry 2025 3 1 11 0 ''Music'' (round_to_double (3 / 10))]"

section \<open>Quantities the claims speak of\<close>

text \<open>
  Float64 addition that records whether a sum was exact, and the summation run with
  it: \<open>no_rounding xs\<close> holds when no addition of \<^verbatim>\<open>Series.sum()\<close> on the values \<open>xs\<close>
  rounds its result.
\<close>

definition fadd_checked :: "rat \<times> bool \<Rightarrow> rat \<times> bool \<Rightarrow> rat \<times> bool" where
  "fadd_checked a b =
     (fadd (fst a) (fst b), snd a \<and> snd b \<and> fadd (fst a) (fst b) = fst a + fst b)"

definition no_rounding :: "rat list \<Rightarrow> bool" where
  "no_rounding xs = snd (add_reduce (0, True) fadd_checked (map (\<lambda>x. (x, True)) xs))"

text \<open>The summed duration of a priority over the whole record set.\<close>

definition priority_total :: "activity list \<Rightarrow> string \<Rightarrow> rat" where
  "priority_total df p = (\<Sum>r\<leftarrow>filter (\<lambda>r. Priority r = p) df. Duration r)"

text \<open>The days on which a priority has at least one record, and its total on a day.\<close>

definition active_days :: "activity list \<Rightarrow> string \<Rightarrow> date set" where
  "active_days df p = (\<lambda>r. date_of (Timestamp r)) ` {r \<in> set df. Priority r = p}"

definition day_total :: "activity list \<Rightarrow> date \<Rightarrow> string \<Rightarrow> rat" where
  "day_total df d p =
     (\<Sum>r\<leftarrow>filter (\<lambda>r. date_of (Timestamp r) = d \<and> Priority r = p) df. Duration r)"

text \<open>
  The (date, priority) pairs of the schedule and of the activity log, and the planned
  and actual hours of a pair.
\<close>

definition schedule_keys :: "schedule list \<Rightarrow> (date \<times> string) set" where
  "schedule_keys schedule_df = (\<lambda>s. (Date s, sPriority s)) ` set schedule_df"

definition activity_keys :: "activity list \<Rightarrow> (date \<times> string) set" where
  "activity_keys df = (\<lambda>r. (date_of (Timestamp r), Priority r)) ` set df"

definition planned_total :: "schedule list \<Rightarrow> date \<times> string \<Rightarrow> rat" where
  "planned_total schedule_df k =
     (\<Sum>s\<leftarrow>filter (\<lambda>s. (Date s, sPriority s) = k) schedule_df. Planned_Duration s)"

definition actual_total :: "activity list \<Rightarrow> date \<times> string \<Rightarrow> rat" where
  "actual_total df k =
     (\<Sum>r\<leftarrow>filter (\<lambda>r. (date_of (Timestamp r), Priority r) = k) df. Duration r)"

text \<open>\<open>n\<close> consecutive calendar days ending at \<open>d\<close>, all of them in \<open>D\<close>.\<close>

definition run_of_days :: "date set \<Rightarrow> date \<Rightarrow> int \<Rightarrow> bool" where
  "run_of_days D d n \<longleftrightarrow> 1 \<le> n \<and> {d - n + 1..d} \<subseteq> D"

text \<open>
  What the claim says of the streak record of a priority whose distinct calendar dates
  are \<open>D\<close>: the last activity is the latest date, the current streak is the length of the
  run that ends at the latest date, and the maximum streak is the length of the longest
  run.
\<close>

definition streak_of_days :: "date set \<Rightarrow> streak \<Rightarrow> bool" where
  "streak_of_days D s \<longleftrightarrow>
     last_activity s = Max D
     \<and> run_of_days D (Max D) (current_streak s)
     \<and> Max D - current_streak s \<notin> D
     \<and> (\<exists>d. run_of_days D d (max_streak s))
     \<and> (\<forall>d n. run_of_days D d n \<longrightarrow> n \<le> max_streak s)"

section \<open>Facts about the pandas operations\<close>

lemma fold_add_sum: "fold (\<lambda>x acc. acc + x) xs (a::rat) = a + sum_list xs"
  by (induction xs arbitrary: a) auto

lemma series_sum_eq: "series_sum xs = sum_list xs"
  by (simp add: series_sum_def fold_add_sum)






section \<open>Total hours\<close>

lemma map2_rel:
  assumes step: "\<And>a a' b b'. R a a' \<Longrightarrow> R b b' \<Longrightarrow> R (f a b) (g a' b')"
    and r: "list_all2 R r r'" and xs: "list_all2 R xs ys"
  shows "list_all2 R (map2 f r xs) (map2 g r' ys)"
proof (rule list_all2_all_nthI)
  from r xs have len: "length r' = length r" "length ys = length xs"
    by (simp_all add: list_all2_lengthD)
  then show "length (map2 f r xs) = length (map2 g r' ys)" by simp
  fix i assume "i < length (map2 f r xs)"
  then have i: "i < length r" "i < length xs" by simp_all
  with r xs have "R (r ! i) (r' ! i)" and "R (xs ! i) (ys ! i)"
    by (simp_all add: list_all2_nthD)
  then have "R (f (r ! i) (xs ! i)) (g (r' ! i) (ys ! i))" by (rule step)
  with i len show "R (map2 f r xs ! i) (map2 g r' ys ! i)" by simp
qed

lemma add_rest_rel:
  assumes "\<And>a a' b b'. R a a' \<Longrightarrow> R b b' \<Longrightarrow> R (f a b) (g a' b')"
    and "list_all2 R xs ys" and "R r r'"
  shows "R (add_rest f r xs) (add_rest g r' ys)"
  using assms(2,3)
proof (induction xs ys arbitrary: r r' rule: list_all2_induct)
  case Nil
  then show ?case by (simp add: add_rest_def)
next
  case (Cons x xs y ys)
  from Cons.prems Cons.hyps(1) have "R (f r x) (g r' y)" by (rule assms(1))
  from Cons.IH [OF this] show ?case by (simp add: add_rest_def)
qed

lemma accumulate8_rel:
  assumes "\<And>a a' b b'. R a a' \<Longrightarrow> R b b' \<Longrightarrow> R (f a b) (g a' b')"
    and "list_all2 R r r'" and "list_all2 R xs ys"
  shows "list_all2 R (fst (accumulate8 f r xs)) (fst (accumulate8 g r' ys))
       \<and> list_all2 R (snd (accumulate8 f r xs)) (snd (accumulate8 g r' ys))"
  using assms
proof (induction f r xs arbitrary: r' ys rule: accumulate8.induct)
  case (1 f r xs)
  note step = "1.prems"(1)
  from "1.prems"(3) have len: "length ys = length xs" by (simp add: list_all2_lengthD)
  show ?case
  proof (cases "8 \<le> length xs")
    case True
    have first: "list_all2 R (take 8 xs) (take 8 ys)"
      and rest: "list_all2 R (drop 8 xs) (drop 8 ys)"
      using "1.prems"(3) by (simp_all add: list_all2_takeI list_all2_dropI)
    have "list_all2 R (map2 f r (take 8 xs)) (map2 g r' (take 8 ys))"
      by (rule map2_rel [where R = R, OF step "1.prems"(2) first])
    from "1.IH" [OF True step this rest] True len show ?thesis
      by (simp add: accumulate8.simps [of f r xs] accumulate8.simps [of g r' ys])
  next
    case False
    with "1.prems"(2,3) len show ?thesis
      by (simp add: accumulate8.simps [of f r xs] accumulate8.simps [of g r' ys])
  qed
qed

lemma accumulate8_length:
  "length r = 8 \<Longrightarrow> length (fst (accumulate8 f r xs)) = 8"
proof (induction f r xs rule: accumulate8.induct)
  case (1 f r xs)
  show ?case
  proof (cases "8 \<le> length xs")
    case True
    with "1.prems" have "length (map2 f r (take 8 xs)) = 8" by simp
    from "1.IH" [OF True this] True show ?thesis
      by (simp add: accumulate8.simps [of f r xs])
  next
    case False
    with "1.prems" show ?thesis by (simp add: accumulate8.simps [of f r xs])
  qed
qed

lemma combine8_rel:
  assumes step: "\<And>a a' b b'. R a a' \<Longrightarrow> R b b' \<Longrightarrow> R (f a b) (g a' b')"
    and r: "list_all2 R r r'" and len: "length r = 8"
  shows "R (combine8 f r) (combine8 g r')"
proof -
  have nth: "R (r ! i) (r' ! i)" if "i < 8" for i
    using r that len by (simp add: list_all2_nthD)
  show ?thesis
    unfolding combine8_def by (intro step nth) simp_all
qed

lemma pairwise_sum_rel:
  assumes step: "\<And>a a' b b'. R a a' \<Longrightarrow> R b b' \<Longrightarrow> R (f a b) (g a' b')"
    and z: "R z z'" and "list_all2 R xs ys"
  shows "R (pairwise_sum z f xs) (pairwise_sum z' g ys)"
  using assms(3)
proof (induction xs arbitrary: ys rule: length_induct)
  case (1 xs)
  from "1.prems" have len: "length ys = length xs" by (simp add: list_all2_lengthD)
  consider (small) "length xs < 8" | (block) "8 \<le> length xs" "length xs \<le> 128"
    | (large) "128 < length xs" by linarith
  then show ?case
  proof cases
    case small
    with len "1.prems" z show ?thesis
      by (simp add: pairwise_sum.simps [of z f xs] pairwise_sum.simps [of z' g ys]
          add_rest_rel [where R = R, OF step])
  next
    case block
    have first: "list_all2 R (take 8 xs) (take 8 ys)"
      and rest: "list_all2 R (drop 8 xs) (drop 8 ys)"
      using "1.prems" by (simp_all add: list_all2_takeI list_all2_dropI)
    note acc = accumulate8_rel [where R = R, OF step first rest]
    have "length (take 8 xs) = 8" using block by simp
    then have "length (fst (accumulate8 f (take 8 xs) (drop 8 xs))) = 8"
      by (rule accumulate8_length)
    with acc have "R (combine8 f (fst (accumulate8 f (take 8 xs) (drop 8 xs))))
                     (combine8 g (fst (accumulate8 g (take 8 ys) (drop 8 ys))))"
      by (intro combine8_rel [where R = R, OF step]) simp_all
    with acc have "R (add_rest f (combine8 f (fst (accumulate8 f (take 8 xs) (drop 8 xs))))
                        (snd (accumulate8 f (take 8 xs) (drop 8 xs))))
                     (add_rest g (combine8 g (fst (accumulate8 g (take 8 ys) (drop 8 ys))))
                        (snd (accumulate8 g (take 8 ys) (drop 8 ys))))"
      by (intro add_rest_rel [where R = R, OF step]) simp_all
    with block len show ?thesis
      by (simp add: pairwise_sum.simps [of z f xs] pairwise_sum.simps [of z' g ys])
  next
    case large
    let ?k = "length xs div 2 - length xs div 2 mod 8"
    have k: "0 < ?k" "?k < length xs" using large by linarith+
    have "list_all2 R (take ?k xs) (take ?k ys)" and "list_all2 R (drop ?k xs) (drop ?k ys)"
      using "1.prems" by (simp_all add: list_all2_takeI list_all2_dropI)
    moreover have "length (take ?k xs) < length xs"
      using k by simp
    moreover have "length (drop ?k xs) < length xs"
    proof -
      have "length xs - ?k < length xs" using k by linarith
      then show ?thesis by (simp only: length_drop)
    qed
    ultimately have "R (pairwise_sum z f (take ?k xs)) (pairwise_sum z' g (take ?k ys))"
      and "R (pairwise_sum z f (drop ?k xs)) (pairwise_sum z' g (drop ?k ys))"
      using "1.IH" by blast+
    then have "R (f (pairwise_sum z f (take ?k xs)) (pairwise_sum z f (drop ?k xs)))
                 (g (pairwise_sum z' g (take ?k ys)) (pairwise_sum z' g (drop ?k ys)))"
      by (rule step)
    with large len show ?thesis
      by (simp add: pairwise_sum.simps [of z f xs] pairwise_sum.simps [of z' g ys])
  qed
qed

lemma add_reduce_rel:
  assumes step: "\<And>a a' b b'. R a a' \<Longrightarrow> R b b' \<Longrightarrow> R (f a b) (g a' b')"
    and z: "R z z'" and xs: "list_all2 R xs ys"
  shows "R (add_reduce z f xs) (add_reduce z' g ys)"
  unfolding add_reduce_def
  by (intro step z pairwise_sum_rel [where R = R, OF step z xs])

lemma add_rest_plus: "add_rest (+) r xs = r + sum_list xs" for r :: rat
  unfolding add_rest_def by (induction xs arbitrary: r) (simp_all add: add.assoc)

lemma map2_plus_sum:
  "length r = length t \<Longrightarrow> sum_list (map2 (+) r t) = sum_list r + sum_list t"
  for r :: "rat list"
  by (induction r t rule: list_induct2) simp_all

lemma sum_list_take_drop: "sum_list (take n xs) + sum_list (drop n xs) = sum_list xs"
  for xs :: "rat list"
  using sum_list_append [of "take n xs" "drop n xs"] by simp

lemma accumulate8_plus:
  "length r = 8 \<Longrightarrow>
   sum_list (fst (accumulate8 (+) r xs)) + sum_list (snd (accumulate8 (+) r xs)) =
     sum_list r + sum_list xs"
  for r :: "rat list"
proof (induction "(+) :: rat \<Rightarrow> rat \<Rightarrow> rat" r xs rule: accumulate8.induct)
  case (1 r xs)
  show ?case
  proof (cases "8 \<le> length xs")
    case True
    with "1.prems" have len: "length r = length (take 8 xs)" by simp
    then have "length (map2 (+) r (take 8 xs)) = 8" using "1.prems" by simp
    from "1.hyps" [OF True this]
    have "sum_list (fst (accumulate8 (+) r xs)) + sum_list (snd (accumulate8 (+) r xs)) =
            sum_list (map2 (+) r (take 8 xs)) + sum_list (drop 8 xs)"
      using True by (simp add: accumulate8.simps [of _ r xs])
    also have "\<dots> = sum_list r + (sum_list (take 8 xs) + sum_list (drop 8 xs))"
      by (simp add: map2_plus_sum [OF len])
    finally show ?thesis by (simp only: sum_list_take_drop)
  next
    case False
    then show ?thesis by (simp add: accumulate8.simps [of _ r xs])
  qed
qed

lemma combine8_plus: "length r = 8 \<Longrightarrow> combine8 (+) r = sum_list r" for r :: "rat list"
proof -
  assume "length r = 8"
  then obtain a b c d e f g h where "r = [a, b, c, d, e, f, g, h]"
    by (auto simp: length_Suc_conv eval_nat_numeral)
  then show ?thesis by (simp add: combine8_def)
qed

lemma pairwise_sum_plus: "pairwise_sum 0 (+) xs = sum_list xs" for xs :: "rat list"
proof (induction xs rule: length_induct)
  case (1 xs)
  consider (small) "length xs < 8" | (block) "8 \<le> length xs" "length xs \<le> 128"
    | (large) "128 < length xs" by linarith
  then show ?case
  proof cases
    case small
    then show ?thesis
      by (simp add: pairwise_sum.simps [of _ _ xs] add_rest_plus)
  next
    case block
    then have len: "length (take 8 xs) = 8" by simp
    have "sum_list (fst (accumulate8 (+) (take 8 xs) (drop 8 xs)))
          + sum_list (snd (accumulate8 (+) (take 8 xs) (drop 8 xs)))
          = sum_list (take 8 xs) + sum_list (drop 8 xs)"
      by (rule accumulate8_plus [OF len])
    then have "sum_list (fst (accumulate8 (+) (take 8 xs) (drop 8 xs)))
          + sum_list (snd (accumulate8 (+) (take 8 xs) (drop 8 xs))) = sum_list xs"
      by (simp only: sum_list_take_drop)
    moreover have "pairwise_sum 0 (+) xs =
        add_rest (+) (combine8 (+) (fst (accumulate8 (+) (take 8 xs) (drop 8 xs))))
          (snd (accumulate8 (+) (take 8 xs) (drop 8 xs)))"
      using block by (subst pairwise_sum.simps) simp
    moreover have "combine8 (+) (fst (accumulate8 (+) (take 8 xs) (drop 8 xs))) =
        sum_list (fst (accumulate8 (+) (take 8 xs) (drop 8 xs)))"
      by (rule combine8_plus) (rule accumulate8_length [OF len])
    ultimately show ?thesis
      by (simp only: add_rest_plus)
  next
    case large
    let ?k = "length xs div 2 - length xs div 2 mod 8"
    have k: "0 < ?k" "?k < length xs" using large by linarith+
    have "length (take ?k xs) < length xs"
      using k by simp
    moreover have "length (drop ?k xs) < length xs"
    proof -
      have "length xs - ?k < length xs" using k by linarith
      then show ?thesis by (simp only: length_drop)
    qed
    ultimately have "pairwise_sum 0 (+) (take ?k xs) = sum_list (take ?k xs)"
      and "pairwise_sum 0 (+) (drop ?k xs) = sum_list (drop ?k xs)"
      using "1.IH" by blast+
    then have "pairwise_sum 0 (+) (take ?k xs) + pairwise_sum 0 (+) (drop ?k xs) =
                 sum_list xs"
      by (simp only: sum_list_take_drop)
    with large show ?thesis
      by (simp add: pairwise_sum.simps [of _ _ xs])
  qed
qed

lemma add_reduce_plus: "add_reduce 0 (+) xs = sum_list xs" for xs :: "rat list"
  by (simp add: add_reduce_def pairwise_sum_plus)


lemma checked_run_value:
  "fst (add_reduce (0, True) fadd_checked (map (\<lambda>x. (x, True)) xs)) = float64_sum xs"
proof -
  have step: "fst (fadd_checked a b) = fadd a' b'" if "fst a = a'" "fst b = b'" for a a' b b'
    using that by (simp add: fadd_checked_def)
  have inputs: "list_all2 (\<lambda>c y. fst c = y) (map (\<lambda>x. (x, True)) xs) xs"
    by (simp add: list_all2_conv_all_nth)
  have z: "fst (0::rat, True) = 0"
    by simp
  have "fst (add_reduce (0::rat, True) fadd_checked (map (\<lambda>x. (x, True)) xs)) =
          add_reduce 0 fadd xs"
    by (rule add_reduce_rel [where R = "\<lambda>c y. fst c = y" and f = fadd_checked and g = fadd,
          OF step z inputs])
  then show ?thesis by (simp only: float64_sum_def)
qed

lemma checked_run_exact:
  assumes "no_rounding xs"
  shows "fst (add_reduce (0, True) fadd_checked (map (\<lambda>x. (x, True)) xs)) = sum_list xs"
proof -
  have step: "snd (fadd_checked a' b') \<longrightarrow> fst (fadd_checked a' b') = a + b"
    if "snd a' \<longrightarrow> fst a' = a" "snd b' \<longrightarrow> fst b' = b" for a a' b b'
    using that by (auto simp: fadd_checked_def)
  have inputs: "list_all2 (\<lambda>x c. snd c \<longrightarrow> fst c = x) xs (map (\<lambda>x. (x, True)) xs)"
    by (simp add: list_all2_conv_all_nth)
  have z: "snd (0::rat, True) \<longrightarrow> fst (0::rat, True) = 0"
    by simp
  have "snd (add_reduce (0::rat, True) fadd_checked (map (\<lambda>x. (x, True)) xs)) \<longrightarrow>
        fst (add_reduce (0::rat, True) fadd_checked (map (\<lambda>x. (x, True)) xs)) =
          add_reduce 0 (+) xs"
    by (rule add_reduce_rel [where R = "\<lambda>x c. snd c \<longrightarrow> fst c = x" and f = "(+)"
          and g = fadd_checked, OF step z inputs])
  with assms show ?thesis
    unfolding no_rounding_def add_reduce_plus by blast
qed

lemma float64_sum_exact:
  assumes "no_rounding xs"
  shows "float64_sum xs = sum_list xs"
  using checked_run_value [of xs, symmetric] checked_run_exact [OF assms]
  by (rule trans)

lemma float64_sum_empty: "float64_sum [] = 0"
proof -
  have "pairwise_sum 0 fadd [] = 0"
    by (subst pairwise_sum.simps) (simp add: add_rest_def)
  then show ?thesis
    by (simp add: float64_sum_def add_reduce_def fadd_def round_to_double_def)
qed
text \<open>
  Claim C9, as the code has it. \<^verbatim>\<open>total_hours\<close> is the float64 sum of the
  \<^verbatim>\<open>Duration\<close> values, every addition rounded to the nearest float64 value, and it
  is 0 for the empty set. Whenever no addition of the summation rounds, it equals the
  sum of the individual durations; and reordering the records does not change it when
  no addition rounds in either order. Whenever \<^verbatim>\<open>calculate_kpis\<close> returns, the field it
  returns is this number.
\<close>

theorem total_hours_float64_sum:
  "kpi_total_hours [] = 0
   \<and> (no_rounding (map Duration df) \<longrightarrow> kpi_total_hours df = (\<Sum>r\<leftarrow>df. Duration r))
   \<and> (\<forall>df'. mset df' = mset df
          \<and> no_rounding (map Duration df) \<and> no_rounding (map Duration df') \<longrightarrow>
          kpi_total_hours df' = kpi_total_hours df)
   \<and> (\<forall>k. calculate_kpis df = Inr k \<longrightarrow> total_hours k = kpi_total_hours df)"
proof (intro conjI allI impI)
  show "kpi_total_hours [] = 0"
    by (simp add: kpi_total_hours_def float64_sum_empty)
  show exact: "kpi_total_hours xs = (\<Sum>r\<leftarrow>xs. Duration r)"
    if "no_rounding (map Duration xs)" for xs
    using that by (simp only: kpi_total_hours_def float64_sum_exact)
  show "kpi_total_hours df' = kpi_total_hours df"
    if h: "mset df' = mset df
          \<and> no_rounding (map Duration df) \<and> no_rounding (map Duration df')" for df'
  proof -
    from h have "mset (map Duration df') = mset (map Duration df)"
      by simp
    then have "sum_mset (mset (map Duration df')) = sum_mset (mset (map Duration df))"
      by (rule arg_cong)
    then have "sum_list (map Duration df') = sum_list (map Duration df)"
      by (simp only: sum_mset_sum_list)
    with h show ?thesis
      by (simp only: exact)
  qed
  show "total_hours k = kpi_total_hours df" if "calculate_kpis df = Inr k" for k
    using that by (auto simp: calculate_kpis_def Let_def split: sum.splits)
qed

theorem total_hours_float64_sum_witness:
  "mset (rev example_log) = mset example_log
   \<and> no_rounding (map Duration example_log)
   \<and> no_rounding (map Duration (rev example_log))
   \<and> kpi_total_hours (rev example_log) = kpi_total_hours example_log
   \<and> calculate_kpis example_log =
       Inr \<lparr>total_hours = 8, avg_hours_per_day = 8 / 5,
            priority_averages = [(''Career'', 2), (''Fitness'', 1)],
            most_active_priority = ''Career''\<rparr>
   \<and> kpi_total_hours example_log = 8"
proof -
  have perm: "mset (rev example_log) = mset example_log"
    by simp
  have exact: "no_rounding (map Duration example_log)"
    by code_simp
  have exact': "no_rounding (map Duration (rev example_log))"
    by code_simp
  have run: "calculate_kpis example_log =
       Inr \<lparr>total_hours = 8, avg_hours_per_day = 8 / 5,
            priority_averages = [(''Career'', 2), (''Fitness'', 1)],
            most_active_priority = ''Career''\<rparr>"
    by code_simp
  note sums = total_hours_float64_sum [of example_log]
  have "kpi_total_hours (rev example_log) = kpi_total_hours example_log"
    using perm exact exact'
    by (intro sums [THEN conjunct2, THEN conjunct2, THEN conjunct1, rule_format] conjI)
  moreover have "kpi_total_hours example_log = 8"
    using sums [THEN conjunct2, THEN conjunct2, THEN conjunct2, rule_format, OF run]
    by simp
  ultimately show ?thesis
    using perm exact exact' run by (intro conjI)
qed

text \<open>
  The claim as it is written fails on float64 values: the records of 0.1, 0.2 and 0.3
  hours add up to 0.6000000000000001 in this order and to 0.6 in the reverse order, and
  neither is the sum of the three durations.
\<close>

theorem total_hours_reordering_counterexample:
  "mset (rev tenths_log) = mset tenths_log
   \<and> kpi_total_hours tenths_log = 1351079888211149 / 2251799813685248
   \<and> kpi_total_hours (rev tenths_log) = 5404319552844595 / 9007199254740992
   \<and> kpi_total_hours (rev tenths_log) \<noteq> kpi_total_hours tenths_log
   \<and> kpi_total_hours tenths_log \<noteq> (\<Sum>r\<leftarrow>tenths_log. Duration r)"
proof -
  have "mset (rev tenths_log) = mset tenths_log"
    by simp
  moreover have forward: "kpi_total_hours tenths_log = 1351079888211149 / 2251799813685248"
    by code_simp
  moreover have backward:
    "kpi_total_hours (rev tenths_log) = 5404319552844595 / 9007199254740992"
    by code_simp
  moreover have "kpi_total_hours (rev tenths_log) \<noteq> kpi_total_hours tenths_log"
    unfolding forward backward by simp
  moreover have "kpi_total_hours tenths_log \<noteq> (\<Sum>r\<leftarrow>tenths_log. Duration r)"
    by code_simp
  ultimately show ?thesis by (intro conjI)
qed

section \<open>Average hours per day\<close>




section \<open>Schedule expansion\<close>

lemma fold_append_rows: "fold (\<lambda>i sh. sh @ [f i]) xs sheet = sheet @ map f xs"
  by (induction xs arbitrary: sheet) auto

lemma week_from: "map (\<lambda>i. today + int i) [0..<7] =
    [today, today + 1, today + 2, today + 3, today + 4, today + 5, today + 6]"
proof -
  have "[0..<7] = [0, 1, 2, 3, 4, 5, 6::nat]"
    by code_simp
  then show ?thesis by simp
qed

lemma daily_loop_rows:
  "daily_loop form today sheet =
     sheet @ map (new_row form)
       [today, today + 1, today + 2, today + 3, today + 4, today + 5, today + 6]"
proof -
  have "daily_loop form today sheet =
          sheet @ map (\<lambda>i. new_row form (today + int i)) [0..<7]"
    unfolding daily_loop_def by (rule fold_append_rows)
  also have "map (\<lambda>i. new_row form (today + int i)) [0..<7] =
          map (new_row form) (map (\<lambda>i. today + int i) [0..<7])"
    by (simp only: map_map comp_def)
  finally show ?thesis by (simp only: week_from)
qed

lemma weekly_loop_rows:
  "weekly_loop form current_date end_date sheet =
     sheet @ map (new_row form)
       (filter (\<lambda>d. weekday_name d = f_day form) [current_date..end_date])"
proof (induction form current_date end_date sheet rule: weekly_loop.induct)
  case (1 form current_date end_date sheet)
  show ?case
  proof (cases "current_date \<le> end_date")
    case True
    then have range: "[current_date..end_date] = current_date # [current_date + 1..end_date]"
      by (rule upto_rec1)
    show ?thesis
      using True "1.IH" [OF True]
      by (subst weekly_loop.simps) (simp add: range)
  next
    case False
    then show ?thesis
      by (subst weekly_loop.simps) simp
  qed
qed

text \<open>
  Claim C7. A daily template appends exactly seven rows, one per calendar day from the
  current date of the canonical zone on; a weekly template appends exactly one row for
  every date from the start date to the end date, both included, whose weekday name is
  the selected day, in ascending order; every appended row carries the priority, planned
  activity, planned duration and planned time of the template and the status
  \<^verbatim>\<open>Pending\<close>. The witness is the Monday template from 2025-01-06 to 2025-01-20, which
  gives the rows of 01-06, 01-13 and 01-20.
\<close>

theorem schedule_expansion_rows:
  "(f_schedule_type form = Daily \<longrightarrow>
      add_to_schedule form today sheet =
        (sheet @ map (new_row form)
           [today, today + 1, today + 2, today + 3, today + 4, today + 5, today + 6],
         St_success ''Schedule added successfully!''))
   \<and> (f_schedule_type form = Weekly \<longrightarrow>
      add_to_schedule form today sheet =
        (sheet @ map (new_row form)
           (filter (\<lambda>d. weekday_name d = f_day form) [f_start_date form..f_end_date form]),
         St_success ''Schedule added successfully!''))
   \<and> new_row form d =
        \<lparr>Date = d, Time = f_planned_time form, sPriority = f_priority form,
         Planned_Activity = f_planned_activity form,
         Planned_Duration = f_planned_duration form,
         Schedule_Type = f_schedule_type form, Status = ''Pending''\<rparr>"
  by (simp add: add_to_schedule_def daily_loop_rows weekly_loop_rows new_row_def)

theorem schedule_expansion_rows_witness:
  "f_schedule_type monday_form = Weekly
   \<and> add_to_schedule monday_form (days_from_civil 2025 1 4) [] =
       (map (new_row monday_form)
          [days_from_civil 2025 1 6, days_from_civil 2025 1 13, days_from_civil 2025 1 20],
        St_success ''Schedule added successfully!'')
   \<and> f_schedule_type daily_form = Daily
   \<and> map Date (fst (add_to_schedule daily_form (days_from_civil 2025 1 4) [])) =
       [days_from_civil 2025 1 4, days_from_civil 2025 1 5, days_from_civil 2025 1 6,
        days_from_civil 2025 1 7, days_from_civil 2025 1 8, days_from_civil 2025 1 9,
        days_from_civil 2025 1 10]"
proof -
  have weekly: "f_schedule_type monday_form = Weekly"
    by (simp add: monday_form_def)
  have daily: "f_schedule_type daily_form = Daily"
    by (simp add: daily_form_def)
  have mondays:
    "filter (\<lambda>d. weekday_name d = f_day monday_form)
       [f_start_date monday_form..f_end_date monday_form] =
     [days_from_civil 2025 1 6, days_from_civil 2025 1 13, days_from_civil 2025 1 20]"
    by code_simp
  have week: "map Date (map (new_row daily_form)
       [days_from_civil 2025 1 4, days_from_civil 2025 1 4 + 1, days_from_civil 2025 1 4 + 2,
        days_from_civil 2025 1 4 + 3, days_from_civil 2025 1 4 + 4,
        days_from_civil 2025 1 4 + 5, days_from_civil 2025 1 4 + 6]) =
       [days_from_civil 2025 1 4, days_from_civil 2025 1 5, days_from_civil 2025 1 6,
        days_from_civil 2025 1 7, days_from_civil 2025 1 8, days_from_civil 2025 1 9,
        days_from_civil 2025 1 10]"
    by code_simp
  note rows = schedule_expansion_rows [of monday_form "days_from_civil 2025 1 4" "[]" 0]
  note drows = schedule_expansion_rows [of daily_form "days_from_civil 2025 1 4" "[]" 0]
  have "add_to_schedule monday_form (days_from_civil 2025 1 4) [] =
       (map (new_row monday_form)
          [days_from_civil 2025 1 6, days_from_civil 2025 1 13, days_from_civil 2025 1 20],
        St_success ''Schedule added successfully!'')"
    using rows [THEN conjunct2, THEN conjunct1, rule_format, OF weekly]
    by (simp only: mondays append_Nil)
  moreover have "map Date (fst (add_to_schedule daily_form (days_from_civil 2025 1 4) [])) =
       [days_from_civil 2025 1 4, days_from_civil 2025 1 5, days_from_civil 2025 1 6,
        days_from_civil 2025 1 7, days_from_civil 2025 1 8, days_from_civil 2025 1 9,
        days_from_civil 2025 1 10]"
    using drows [THEN conjunct1, rule_format, OF daily]
    by (simp only: week append_Nil fst_conv)
  ultimately show ?thesis
    using weekly daily by (intro conjI)
qed

text \<open>
  Claim C10. A weekly template whose start date is strictly after its end date appends
  no row: the handler leaves the schedule sheet as it was and reports success.
\<close>

theorem weekly_empty_range:
  assumes "f_schedule_type form = Weekly" and "f_end_date form < f_start_date form"
  shows "add_to_schedule form today sheet = (sheet, St_success ''Schedule added successfully!'')"
  using assms by (simp add: add_to_schedule_def weekly_loop_rows)

theorem weekly_empty_range_witness:
  "f_schedule_type backwards_form = Weekly
   \<and> f_end_date backwards_form < f_start_date backwards_form
   \<and> add_to_schedule backwards_form (days_from_civil 2025 1 4)
        [new_row monday_form (days_from_civil 2025 1 6)] =
       ([new_row monday_form (days_from_civil 2025 1 6)],
        St_success ''Schedule added successfully!'')"
proof -
  have weekly: "f_schedule_type backwards_form = Weekly"
    by (simp add: backwards_form_def monday_form_def)
  have order: "f_end_date backwards_form < f_start_date backwards_form"
    by code_simp
  from weekly_empty_range [OF weekly order] weekly order show ?thesis
    by (intro conjI)
qed

section \<open>Time normalizer\<close>

lemma load_data_v2_Timestamp_naive:
  "load_data_v2_Timestamp (Naive w) = Inr (Aware (w + 19800) IST)"
  by (simp add: load_data_v2_Timestamp_def UTC_def IST_def)

lemma load_data_v2_Date_naive: "load_data_v2_Date (Naive w) = Inr (Aware w IST)"
  by (simp add: load_data_v2_Date_def)

lemma load_data_gpt_Timestamp_naive: "load_data_gpt_Timestamp (Naive w) = Inr (Aware w IST)"
  by (simp add: load_data_gpt_Timestamp_def)

lemma load_data_v2_aware:
  "load_data_v2_Timestamp (Aware w off) = Inr (Aware (w - off + IST) IST)"
  "load_data_v2_Date (Aware w off) = Inr (Aware (w - off + IST) IST)"
  by (simp_all add: load_data_v2_Timestamp_def load_data_v2_Date_def)

lemma load_data_gpt_aware: "load_data_gpt_Timestamp (Aware w off) = Inl TypeError"
  by (simp add: load_data_gpt_Timestamp_def)

text \<open>
  Claim C3 says that a timestamp without zone information is taken to be a time of the
  canonical zone already, and is localized without shifting it. \<^verbatim>\<open>load_data\<close> of
  \<^verbatim>\<open>latestapp_v2.py\<close> does so for the \<^verbatim>\<open>Date\<close> column and \<^verbatim>\<open>load_data\<close> of
  \<^verbatim>\<open>more_featgpt.py\<close> for the \<^verbatim>\<open>Timestamp\<close> column, but the \<^verbatim>\<open>Timestamp\<close> branch of
  \<^verbatim>\<open>latestapp_v2.py\<close> localizes to UTC and then converts: the cell written as
  2025-01-01 20:00:00 by the logger, which writes the wall clock of the canonical zone,
  is read back as 2025-01-02 01:30:00, on the next calendar day. A cell that carries a
  zone makes \<^verbatim>\<open>load_data\<close> of \<^verbatim>\<open>more_featgpt.py\<close> raise.
\<close>

theorem load_data_v2_naive_timestamp_as_utc:
  "load_data_v2_Timestamp evening_cell =
     Inr (Aware (days_from_civil 2025 1 2 * 86400 + 1 * 3600 + 30 * 60) IST)
   \<and> load_data_v2_Date evening_cell =
     Inr (Aware (days_from_civil 2025 1 1 * 86400 + 20 * 3600) IST)
   \<and> load_data_gpt_Timestamp evening_cell =
     Inr (Aware (days_from_civil 2025 1 1 * 86400 + 20 * 3600) IST)
   \<and> load_data_gpt_Timestamp utc_cell = Inl TypeError"
  by code_simp

section \<open>Completion rate\<close>

lemma Completion_Rate_value:
  "Completion_Rate planned duration =
     Some (if planned > 0 then round2 (duration / planned * 100) else 0)"
  by (simp add: Completion_Rate_def pd_div_def)

lemma adherence_row_rate:
  "aCompletion_Rate (adherence_row m) =
     Completion_Rate (aPlanned_Duration (adherence_row m)) (aDuration (adherence_row m))"
  by (simp add: adherence_row_def Let_def)

text \<open>
  Claim C6. In every row of the reconciliation table the completion rate is a finite
  number: \<^verbatim>\<open>Duration / Planned_Duration * 100\<close> rounded to two decimal places when the
  planned hours are positive, and 0 otherwise, so that no division by zero is carried
  out. The witness has a row of 3 actual and 0 planned hours, whose completion rate is 0
  and whose difference, in the table of \<^verbatim>\<open>latestapp_v2.py\<close>, is 3.
\<close>

theorem completion_rate_guarded:
  "Completion_Rate planned duration =
     Some (if planned > 0 then round2 (duration / planned * 100) else 0)
   \<and> (analyze_schedule_vs_actual activity_df schedule_df = Inr rows \<longrightarrow>
        (\<forall>row\<in>set rows.
           aCompletion_Rate row =
             Some (if aPlanned_Duration row > 0
                   then round2 (aDuration row / aPlanned_Duration row * 100) else 0)))"
proof -
  have "aCompletion_Rate row =
          Some (if aPlanned_Duration row > 0
                then round2 (aDuration row / aPlanned_Duration row * 100) else 0)"
    if run: "analyze_schedule_vs_actual activity_df schedule_df = Inr rows"
      and row: "row \<in> set rows" for row
  proof -
    from run row obtain m where "row = adherence_row m"
      by (auto simp: analyze_schedule_vs_actual_def split: if_splits)
    then show ?thesis
      by (simp only: adherence_row_rate Completion_Rate_value)
  qed
  then show ?thesis
    using Completion_Rate_value by blast
qed

theorem completion_rate_guarded_witness:
  "analyze_schedule_vs_actual february_log february_plan =
     Inr [\<lparr>aDate = days_from_civil 2025 2 1, aPriority = ''Career'',
           aPlanned_Duration = 2, aDuration = 0, aCompletion_Rate = Some 0\<rparr>,
          \<lparr>aDate = days_from_civil 2025 2 2, aPriority = ''Fitness'',
           aPlanned_Duration = 3, aDuration = 1, aCompletion_Rate = Some (3333 / 100)\<rparr>,
          \<lparr>aDate = days_from_civil 2025 2 3, aPriority = ''Career'',
           aPlanned_Duration = 0, aDuration = 3, aCompletion_Rate = Some 0\<rparr>,
          \<lparr>aDate = days_from_civil 2025 2 4, aPriority = ''Music'',
           aPlanned_Duration = 0, aDuration = 1, aCompletion_Rate = Some 0\<rparr>]
   \<and> Completion_Rate 0 3 = Some 0
   \<and> Completion_Rate 3 1 = Some (round2 (1 / 3 * 100))
   \<and> round2 (1 / 3 * 100) = 3333 / 100
   \<and> map_sum id (map cDifference)
        (create_plan_vs_actual_analysis All_time 0 february_plan february_log) =
       Inr [- 2, - 2, 3, 1]"
proof -
  let ?third = "\<lparr>aDate = days_from_civil 2025 2 3, aPriority = ''Career'',
           aPlanned_Duration = 0, aDuration = 3, aCompletion_Rate = Some 0\<rparr>"
  have run: "analyze_schedule_vs_actual february_log february_plan =
     Inr [\<lparr>aDate = days_from_civil 2025 2 1, aPriority = ''Career'',
           aPlanned_Duration = 2, aDuration = 0, aCompletion_Rate = Some 0\<rparr>,
          \<lparr>aDate = days_from_civil 2025 2 2, aPriority = ''Fitness'',
           aPlanned_Duration = 3, aDuration = 1, aCompletion_Rate = Some (3333 / 100)\<rparr>,
          ?third,
          \<lparr>aDate = days_from_civil 2025 2 4, aPriority = ''Music'',
           aPlanned_Duration = 0, aDuration = 1, aCompletion_Rate = Some 0\<rparr>]"
    by code_simp
  have diff: "map_sum id (map cDifference)
        (create_plan_vs_actual_analysis All_time 0 february_plan february_log) =
       Inr [- 2, - 2, 3, 1]"
    by code_simp
  have r: "round2 (1 / 3 * 100) = 3333 / 100"
    by code_simp
  note rate = completion_rate_guarded
    [where activity_df = february_log and schedule_df = february_plan, THEN conjunct1]
  note rows = completion_rate_guarded
    [where activity_df = february_log and schedule_df = february_plan,
     THEN conjunct2, rule_format, OF run]
  have "aCompletion_Rate ?third =
          Some (if aPlanned_Duration ?third > 0
                then round2 (aDuration ?third / aPlanned_Duration ?third * 100) else 0)"
    by (rule rows) simp
  have "Completion_Rate 0 3 = Some 0"
    using rate [of 0 3] by simp
  moreover have "Completion_Rate 3 1 = Some (round2 (1 / 3 * 100))"
    using rate [of 3 1] by simp
  ultimately show ?thesis
    using run diff r by (intro conjI)
qed

section \<open>Group-by and merge\<close>

lemma map_of_tabulate:
  "map_of (map (\<lambda>k. (k, f k)) ks) k = (if k \<in> set ks then Some (f k) else None)"
  by (induction ks) auto

lemma groupby_sum_keys: "map fst (groupby_sum key col df) = sort (remdups (map key df))"
  by (simp add: groupby_sum_def comp_def)

lemma groupby_sum_key_set: "fst ` set (groupby_sum key col df) = key ` set df"
proof -
  have "set (map fst (groupby_sum key col df)) = key ` set df"
    by (simp only: groupby_sum_keys set_sort set_remdups set_map)
  then show ?thesis by simp
qed

lemma groupby_sum_distinct: "distinct (map fst (groupby_sum key col df))"
  by (simp only: groupby_sum_keys distinct_sort distinct_remdups)


lemma groupby_sum_lookup:
  "map_of (groupby_sum key col df) k =
     (if k \<in> key ` set df then Some (sum_list (map col (filter (\<lambda>r. key r = k) df))) else None)"
  by (simp add: groupby_sum_def map_of_tabulate series_sum_eq)



section \<open>Most active priority\<close>






section \<open>Average hours per day of a priority\<close>

lemma groupby_mean_lookup:
  "map_of (groupby_mean key col df) k =
     (if k \<in> key ` set df then Some (series_mean (map col (filter (\<lambda>r. key r = k) df)))
      else None)"
  by (simp add: groupby_mean_def map_of_tabulate)

lemma groupby_mean_distinct: "distinct (map fst (groupby_mean key col df))"
  by (simp add: groupby_mean_def comp_def)

lemma daily_totals_of_priority:
  "map snd (filter (\<lambda>kv. snd (fst kv) = p) (priority_daily_totals df)) =
     map (\<lambda>k. day_total df (fst k) p)
       (filter (\<lambda>k. snd k = p)
          (sort (remdups (map (\<lambda>r. (date_of (Timestamp r), Priority r)) df))))"
proof -
  have "(\<lambda>r. (date_of (Timestamp r), Priority r) = k) =
        (\<lambda>r. date_of (Timestamp r) = fst k \<and> Priority r = snd k)" for k :: "date \<times> string"
    by (cases k) auto
  then show ?thesis
    by (simp add: priority_daily_totals_def groupby_sum_def filter_map comp_def
        series_sum_eq day_total_def cong: map_cong)
qed

lemma keys_of_priority:
  "set (filter (\<lambda>k. snd k = p)
          (sort (remdups (map (\<lambda>r. (date_of (Timestamp r), Priority r)) df)))) =
     (\<lambda>d. (d, p)) ` active_days df p"
  by (auto simp: active_days_def)

lemma priorities_of_daily_totals:
  "(\<lambda>kv. snd (fst kv)) ` set (priority_daily_totals df) = Priority ` set df"
proof -
  have "(\<lambda>kv. snd (fst kv)) ` set (priority_daily_totals df) =
          snd ` fst ` set (priority_daily_totals df)"
    by (simp add: image_image)
  also have "\<dots> = snd ` (\<lambda>r. (date_of (Timestamp r), Priority r)) ` set df"
    by (simp only: priority_daily_totals_def groupby_sum_key_set)
  also have "\<dots> = Priority ` set df"
    by (simp add: image_image)
  finally show ?thesis .
qed

lemma priority_average_value:
  assumes "p \<in> Priority ` set df"
  shows "map_of (kpi_priority_averages df) p =
           Some ((\<Sum>d\<in>active_days df p. day_total df d p) / of_nat (card (active_days df p)))"
proof -
  let ?L = "filter (\<lambda>k. snd k = p)
          (sort (remdups (map (\<lambda>r. (date_of (Timestamp r), Priority r)) df)))"
  have inj: "inj_on (\<lambda>d. (d, p)) (active_days df p)"
    by (simp add: inj_on_def)
  have dist: "distinct ?L"
    by simp
  have "(\<lambda>kv. snd (fst kv)) ` set (priority_daily_totals df) = Priority ` set df"
    by (rule priorities_of_daily_totals)
  with assms have "map_of (kpi_priority_averages df) p =
      Some (series_mean (map (\<lambda>k. day_total df (fst k) p) ?L))"
    by (simp only: kpi_priority_averages_def groupby_mean_lookup daily_totals_of_priority
        if_True)
  moreover have "sum_list (map (\<lambda>k. day_total df (fst k) p) ?L) =
      (\<Sum>d\<in>active_days df p. day_total df d p)"
  proof -
    have "sum_list (map (\<lambda>k. day_total df (fst k) p) ?L) =
            (\<Sum>k\<in>set ?L. day_total df (fst k) p)"
      using dist by (rule sum_list_distinct_conv_sum_set)
    also have "\<dots> = (\<Sum>k\<in>(\<lambda>d. (d, p)) ` active_days df p. day_total df (fst k) p)"
      by (simp only: keys_of_priority)
    also have "\<dots> = (\<Sum>d\<in>active_days df p. day_total df d p)"
      using inj by (simp add: sum.reindex)
    finally show ?thesis .
  qed
  moreover have "length ?L = card (active_days df p)"
  proof -
    have "length ?L = card (set ?L)"
      using dist by (simp only: distinct_card)
    also have "\<dots> = card ((\<lambda>d. (d, p)) ` active_days df p)"
      by (simp only: keys_of_priority)
    also have "\<dots> = card (active_days df p)"
      using inj by (rule card_image)
    finally show ?thesis .
  qed
  ultimately show ?thesis
    by (simp add: series_mean_def series_sum_eq)
qed

lemma priority_average_absent:
  assumes "p \<notin> Priority ` set df"
  shows "map_of (kpi_priority_averages df) p = None"
proof -
  have "(\<lambda>kv. snd (fst kv)) ` set (priority_daily_totals df) = Priority ` set df"
    by (rule priorities_of_daily_totals)
  with assms show ?thesis
    by (simp only: kpi_priority_averages_def groupby_mean_lookup if_False)
qed

text \<open>
  Claim C2. For every set of activity records and every priority in it, the average
  hours per day of the priority is the mean of its per-day totals, taken over the days on
  which the priority has at least one record; a day without a record of the priority is
  not counted as a zero. A priority that is not in the set has no entry. The result
  differs in general from the total of the priority divided by the span of the whole log:
  in the example log Fitness has 4 hours on 4 days of a span of 5 days, average 1 and
  not 4/5.
\<close>

theorem priority_average_over_active_days:
  "(p \<in> Priority ` set df \<longrightarrow>
      active_days df p \<noteq> {}
      \<and> map_of (kpi_priority_averages df) p =
          Some ((\<Sum>d\<in>active_days df p. day_total df d p) / of_nat (card (active_days df p))))
   \<and> (p \<notin> Priority ` set df \<longrightarrow> map_of (kpi_priority_averages df) p = None)
   \<and> (\<forall>k. calculate_kpis df = Inr k \<longrightarrow> priority_averages k = kpi_priority_averages df)
   \<and> map_of (kpi_priority_averages example_log) ''Fitness'' \<noteq>
       Some (priority_total example_log ''Fitness'' /
             of_int ((Max (Timestamp ` set example_log) - Min (Timestamp ` set example_log))
                     div 86400 + 1))"
proof -
  have "active_days df p \<noteq> {}" if "p \<in> Priority ` set df"
    using that by (auto simp: active_days_def)
  moreover have "priority_averages k = kpi_priority_averages df"
    if "calculate_kpis df = Inr k" for k
    using that by (auto simp: calculate_kpis_def Let_def split: sum.splits)
  moreover have "map_of (kpi_priority_averages example_log) ''Fitness'' \<noteq>
       Some (priority_total example_log ''Fitness'' /
             of_int ((Max (Timestamp ` set example_log) - Min (Timestamp ` set example_log))
                     div 86400 + 1))"
    by code_simp
  ultimately show ?thesis
    using priority_average_value [of p df] priority_average_absent [of p df] by blast
qed

theorem priority_average_over_active_days_witness:
  "''Fitness'' \<in> Priority ` set example_log
   \<and> active_days example_log ''Fitness'' =
       {days_from_civil 2025 1 1, days_from_civil 2025 1 2, days_from_civil 2025 1 3,
        days_from_civil 2025 1 5}
   \<and> map (\<lambda>d. day_total example_log d ''Fitness'')
        [days_from_civil 2025 1 1, days_from_civil 2025 1 2, days_from_civil 2025 1 3,
         days_from_civil 2025 1 4, days_from_civil 2025 1 5] = [1, 1 / 2, 1, 0, 3 / 2]
   \<and> map_of (kpi_priority_averages example_log) ''Fitness'' = Some 1
   \<and> ''Music'' \<notin> Priority ` set example_log
   \<and> map_of (kpi_priority_averages example_log) ''Music'' = None
   \<and> priority_total example_log ''Fitness'' /
        of_int ((Max (Timestamp ` set example_log) - Min (Timestamp ` set example_log))
                div 86400 + 1) = 4 / 5"
proof -
  have fitness: "''Fitness'' \<in> Priority ` set example_log"
    by code_simp
  have music: "''Music'' \<notin> Priority ` set example_log"
    by code_simp
  have days: "active_days example_log ''Fitness'' =
       {days_from_civil 2025 1 1, days_from_civil 2025 1 2, days_from_civil 2025 1 3,
        days_from_civil 2025 1 5}"
    by code_simp
  have totals: "map (\<lambda>d. day_total example_log d ''Fitness'')
        [days_from_civil 2025 1 1, days_from_civil 2025 1 2, days_from_civil 2025 1 3,
         days_from_civil 2025 1 4, days_from_civil 2025 1 5] = [1, 1 / 2, 1, 0, 3 / 2]"
    by code_simp
  have mean: "(\<Sum>d\<in>active_days example_log ''Fitness''. day_total example_log d ''Fitness'')
        / of_nat (card (active_days example_log ''Fitness'')) = 1"
    by code_simp
  have span: "priority_total example_log ''Fitness'' /
        of_int ((Max (Timestamp ` set example_log) - Min (Timestamp ` set example_log))
                div 86400 + 1) = 4 / 5"
    by code_simp
  note avg = priority_average_over_active_days [of _ example_log]
  have "map_of (kpi_priority_averages example_log) ''Fitness'' = Some 1"
    using avg [of "''Fitness''", THEN conjunct1, rule_format, OF fitness, THEN conjunct2]
    by (simp only: mean)
  moreover have "map_of (kpi_priority_averages example_log) ''Music'' = None"
    by (rule avg [of "''Music''", THEN conjunct2, THEN conjunct1, rule_format, OF music])
  ultimately show ?thesis
    using fitness music days totals span by (intro conjI)
qed

section \<open>Plan versus actual\<close>

lemma merge_outer_keys:
  "map fst (merge_outer left right) = sort (remdups (map fst left @ map fst right))"
  by (simp add: merge_outer_def comp_def)

lemma merge_outer_distinct: "distinct (map fst (merge_outer left right))"
  by (simp only: merge_outer_keys distinct_sort distinct_remdups)

lemma merge_outer_key_set:
  "fst ` set (merge_outer left right) = fst ` set left \<union> fst ` set right"
proof -
  have "set (map fst (merge_outer left right)) = fst ` set left \<union> fst ` set right"
    by (simp only: merge_outer_keys set_sort set_remdups set_append set_map)
  then show ?thesis by simp
qed

lemma merge_outer_entry:
  "m \<in> set (merge_outer left right) \<Longrightarrow>
     fst (snd m) = map_of left (fst m) \<and> snd (snd m) = map_of right (fst m)"
  by (auto simp: merge_outer_def)

lemma planned_hours_lookup:
  "fillna 0 (map_of (planned_hours schedule_df) k) = planned_total schedule_df k"
proof (cases "k \<in> schedule_keys schedule_df")
  case True
  then show ?thesis
    by (simp add: planned_hours_def groupby_sum_lookup schedule_keys_def fillna_def
        planned_total_def)
next
  case False
  then have "filter (\<lambda>s. (Date s, sPriority s) = k) schedule_df = []"
    by (auto simp: schedule_keys_def filter_empty_conv)
  with False show ?thesis
    by (simp add: planned_hours_def groupby_sum_lookup schedule_keys_def fillna_def
        planned_total_def)
qed

lemma actual_hours_lookup:
  "fillna 0 (map_of (actual_hours df) k) = actual_total df k"
proof (cases "k \<in> activity_keys df")
  case True
  then show ?thesis
    by (simp add: actual_hours_def groupby_sum_lookup activity_keys_def fillna_def
        actual_total_def)
next
  case False
  then have "filter (\<lambda>r. (date_of (Timestamp r), Priority r) = k) df = []"
    by (auto simp: activity_keys_def filter_empty_conv)
  with False show ?thesis
    by (simp add: actual_hours_def groupby_sum_lookup activity_keys_def fillna_def
        actual_total_def)
qed

lemma planned_total_absent: "k \<notin> schedule_keys schedule_df \<Longrightarrow> planned_total schedule_df k = 0"
proof -
  assume "k \<notin> schedule_keys schedule_df"
  then have "filter (\<lambda>s. (Date s, sPriority s) = k) schedule_df = []"
    by (auto simp: schedule_keys_def filter_empty_conv)
  then show ?thesis by (simp add: planned_total_def)
qed

lemma actual_total_absent: "k \<notin> activity_keys df \<Longrightarrow> actual_total df k = 0"
proof -
  assume "k \<notin> activity_keys df"
  then have "filter (\<lambda>r. (date_of (Timestamp r), Priority r) = k) df = []"
    by (auto simp: activity_keys_def filter_empty_conv)
  then show ?thesis by (simp add: actual_total_def)
qed

lemma joined_key_set:
  "fst ` set (merge_outer (planned_hours schedule_df) (actual_hours df)) =
     schedule_keys schedule_df \<union> activity_keys df"
  by (simp only: merge_outer_key_set planned_hours_def actual_hours_def groupby_sum_key_set
      schedule_keys_def activity_keys_def)

lemma comparison_row_fields:
  assumes "m \<in> set (merge_outer (planned_hours schedule_df) (actual_hours df))"
  shows "(cDate (comparison_row m), cPriority (comparison_row m)) = fst m"
    and "cPlanned_Duration (comparison_row m) = planned_total schedule_df (fst m)"
    and "cDuration_actual (comparison_row m) = actual_total df (fst m)"
    and "cDifference (comparison_row m) =
           cDuration_actual (comparison_row m) - cPlanned_Duration (comparison_row m)"
  using merge_outer_entry [OF assms]
  by (simp_all add: comparison_row_def Let_def planned_hours_lookup actual_hours_lookup)

lemma adherence_row_fields:
  assumes "m \<in> set (merge_outer (planned_hours schedule_df) (actual_hours df))"
  shows "(aDate (adherence_row m), aPriority (adherence_row m)) = fst m"
    and "aPlanned_Duration (adherence_row m) = planned_total schedule_df (fst m)"
    and "aDuration (adherence_row m) = actual_total df (fst m)"
  using merge_outer_entry [OF assms]
  by (simp_all add: adherence_row_def Let_def planned_hours_lookup actual_hours_lookup)

lemma comparison_keys:
  "map (\<lambda>c. (cDate c, cPriority c)) (comparison_df schedule_df df) =
     map fst (merge_outer (planned_hours schedule_df) (actual_hours df))"
  by (simp add: comparison_df_def comparison_row_def Let_def)

lemma adherence_keys:
  "map (\<lambda>a. (aDate a, aPriority a)) (map adherence_row ms) = map fst ms"
  by (simp add: adherence_row_def Let_def)

lemma distinct_keys_sort_key:
  "distinct (map fst (sort_key f ms)) = distinct (map fst ms)"
proof -
  have "mset (map fst (sort_key f ms)) = mset (map fst ms)"
    by simp
  then show ?thesis by (rule mset_eq_imp_distinct_iff)
qed

lemma comparison_df_outer_join:
  "distinct (map (\<lambda>c. (cDate c, cPriority c)) (comparison_df schedule_df activity_df))
   \<and> (\<lambda>c. (cDate c, cPriority c)) ` set (comparison_df schedule_df activity_df)
       = schedule_keys schedule_df \<union> activity_keys activity_df
   \<and> (\<forall>c\<in>set (comparison_df schedule_df activity_df).
         cPlanned_Duration c = planned_total schedule_df (cDate c, cPriority c)
         \<and> cDuration_actual c = actual_total activity_df (cDate c, cPriority c)
         \<and> ((cDate c, cPriority c) \<notin> activity_keys activity_df \<longrightarrow> cDuration_actual c = 0)
         \<and> ((cDate c, cPriority c) \<notin> schedule_keys schedule_df \<longrightarrow> cPlanned_Duration c = 0)
         \<and> cDifference c = cDuration_actual c - cPlanned_Duration c)"
proof -
  let ?ms = "merge_outer (planned_hours schedule_df) (actual_hours activity_df)"
  let ?cs = "comparison_df schedule_df activity_df"
  have c1: "distinct (map (\<lambda>c. (cDate c, cPriority c)) ?cs)"
    by (simp only: comparison_keys merge_outer_distinct)
  have c2: "(\<lambda>c. (cDate c, cPriority c)) ` set ?cs
       = schedule_keys schedule_df \<union> activity_keys activity_df"
  proof -
    have "(\<lambda>c. (cDate c, cPriority c)) ` set ?cs = set (map (\<lambda>c. (cDate c, cPriority c)) ?cs)"
      by (rule set_map [symmetric])
    also have "\<dots> = fst ` set ?ms"
      by (simp only: comparison_keys set_map)
    finally show ?thesis by (simp only: joined_key_set)
  qed
  have c3: "cPlanned_Duration c = planned_total schedule_df (cDate c, cPriority c)
         \<and> cDuration_actual c = actual_total activity_df (cDate c, cPriority c)
         \<and> ((cDate c, cPriority c) \<notin> activity_keys activity_df \<longrightarrow> cDuration_actual c = 0)
         \<and> ((cDate c, cPriority c) \<notin> schedule_keys schedule_df \<longrightarrow> cPlanned_Duration c = 0)
         \<and> cDifference c = cDuration_actual c - cPlanned_Duration c"
    if "c \<in> set ?cs" for c
  proof -
    from that obtain m where m: "m \<in> set ?ms" and c: "c = comparison_row m"
      by (auto simp: comparison_df_def)
    note f = comparison_row_fields [OF m]
    have "cPlanned_Duration c = planned_total schedule_df (cDate c, cPriority c)"
      and "cDuration_actual c = actual_total activity_df (cDate c, cPriority c)"
      and "cDifference c = cDuration_actual c - cPlanned_Duration c"
      unfolding c by (simp_all only: f)
    then show ?thesis
      by (simp add: planned_total_absent actual_total_absent)
  qed
  show ?thesis
  proof (intro conjI)
    show "distinct (map (\<lambda>c. (cDate c, cPriority c)) ?cs)"
      by (rule c1)
    show "(\<lambda>c. (cDate c, cPriority c)) ` set ?cs
            = schedule_keys schedule_df \<union> activity_keys activity_df"
      by (rule c2)
    show "\<forall>c\<in>set ?cs.
         cPlanned_Duration c = planned_total schedule_df (cDate c, cPriority c)
         \<and> cDuration_actual c = actual_total activity_df (cDate c, cPriority c)
         \<and> ((cDate c, cPriority c) \<notin> activity_keys activity_df \<longrightarrow> cDuration_actual c = 0)
         \<and> ((cDate c, cPriority c) \<notin> schedule_keys schedule_df \<longrightarrow> cPlanned_Duration c = 0)
         \<and> cDifference c = cDuration_actual c - cPlanned_Duration c"
      by (rule ballI) (rule c3)
  qed
qed

lemma adherence_outer_join:
  "distinct (map (\<lambda>a. (aDate a, aPriority a))
      (map adherence_row (sort_key (\<lambda>m. fst (fst m))
         (merge_outer (planned_hours schedule_df) (actual_hours activity_df)))))
   \<and> (\<lambda>a. (aDate a, aPriority a)) `
        set (map adherence_row (sort_key (\<lambda>m. fst (fst m))
          (merge_outer (planned_hours schedule_df) (actual_hours activity_df))))
       = schedule_keys schedule_df \<union> activity_keys activity_df
   \<and> (\<forall>a\<in>set (map adherence_row (sort_key (\<lambda>m. fst (fst m))
          (merge_outer (planned_hours schedule_df) (actual_hours activity_df)))).
         aPlanned_Duration a = planned_total schedule_df (aDate a, aPriority a)
         \<and> aDuration a = actual_total activity_df (aDate a, aPriority a)
         \<and> ((aDate a, aPriority a) \<notin> activity_keys activity_df \<longrightarrow> aDuration a = 0)
         \<and> ((aDate a, aPriority a) \<notin> schedule_keys schedule_df \<longrightarrow> aPlanned_Duration a = 0))"
proof -
  let ?ms = "merge_outer (planned_hours schedule_df) (actual_hours activity_df)"
  let ?as = "map adherence_row (sort_key (\<lambda>m. fst (fst m)) ?ms)"
  have a1: "distinct (map (\<lambda>a. (aDate a, aPriority a)) ?as)"
    by (simp only: adherence_keys distinct_keys_sort_key merge_outer_distinct)
  have a2: "(\<lambda>a. (aDate a, aPriority a)) ` set ?as
       = schedule_keys schedule_df \<union> activity_keys activity_df"
  proof -
    have "(\<lambda>a. (aDate a, aPriority a)) ` set ?as = set (map (\<lambda>a. (aDate a, aPriority a)) ?as)"
      by (rule set_map [symmetric])
    also have "\<dots> = fst ` set ?ms"
      by (simp only: adherence_keys set_map set_sort)
    finally show ?thesis by (simp only: joined_key_set)
  qed
  have a3: "aPlanned_Duration a = planned_total schedule_df (aDate a, aPriority a)
         \<and> aDuration a = actual_total activity_df (aDate a, aPriority a)
         \<and> ((aDate a, aPriority a) \<notin> activity_keys activity_df \<longrightarrow> aDuration a = 0)
         \<and> ((aDate a, aPriority a) \<notin> schedule_keys schedule_df \<longrightarrow> aPlanned_Duration a = 0)"
    if "a \<in> set ?as" for a
  proof -
    from that obtain m where m: "m \<in> set ?ms" and a: "a = adherence_row m"
      by auto
    note f = adherence_row_fields [OF m]
    have "aPlanned_Duration a = planned_total schedule_df (aDate a, aPriority a)"
      and "aDuration a = actual_total activity_df (aDate a, aPriority a)"
      unfolding a by (simp_all only: f)
    then show ?thesis
      by (simp add: planned_total_absent actual_total_absent)
  qed
  show ?thesis
  proof (intro conjI)
    show "distinct (map (\<lambda>a. (aDate a, aPriority a)) ?as)"
      by (rule a1)
    show "(\<lambda>a. (aDate a, aPriority a)) ` set ?as
            = schedule_keys schedule_df \<union> activity_keys activity_df"
      by (rule a2)
    show "\<forall>a\<in>set ?as.
         aPlanned_Duration a = planned_total schedule_df (aDate a, aPriority a)
         \<and> aDuration a = actual_total activity_df (aDate a, aPriority a)
         \<and> ((aDate a, aPriority a) \<notin> activity_keys activity_df \<longrightarrow> aDuration a = 0)
         \<and> ((aDate a, aPriority a) \<notin> schedule_keys schedule_df \<longrightarrow> aPlanned_Duration a = 0)"
      by (rule ballI) (rule a3)
  qed
qed

text \<open>
  Claim C1, as the code has it. Whenever the reconciler builds its table, the table is
  the full outer join on (calendar date, priority) of the two sets it joins: it has
  exactly one row for every pair of the schedule or of the activity log and no other
  row; the planned and actual hours of a row are the sums over the entries of its pair,
  so a pair of the schedule only has 0 actual hours and a pair of the log only has 0
  planned hours; in the table of \<^verbatim>\<open>latestapp_v2.py\<close> the difference of a row is its
  actual minus its planned hours. \<^verbatim>\<open>create_plan_vs_actual_analysis\<close> of
  \<^verbatim>\<open>latestapp_v2.py\<close> joins the two sets after its time filter, which leaves them as they
  are for "All time"; \<^verbatim>\<open>analyze_schedule_vs_actual\<close> of \<^verbatim>\<open>more_featgpt.py\<close> joins the
  two sets it is given. Both build the table only when the schedule and the activity
  log are both non-empty: when either is empty, the first reports a missing column and
  the second shows a warning, and they return without a table.
\<close>

theorem plan_vs_actual_outer_join:
  "(schedule_df \<noteq> [] \<and> activity_df \<noteq> [] \<longrightarrow>
      (\<exists>rows. create_plan_vs_actual_analysis time_filter now schedule_df activity_df = Inr rows
         \<and> distinct (map (\<lambda>c. (cDate c, cPriority c)) rows)
         \<and> (\<lambda>c. (cDate c, cPriority c)) ` set rows
             = schedule_keys (filter_schedule time_filter now schedule_df)
               \<union> activity_keys (filter_logged time_filter now activity_df)
         \<and> (\<forall>c\<in>set rows.
               cPlanned_Duration c =
                 planned_total (filter_schedule time_filter now schedule_df)
                   (cDate c, cPriority c)
               \<and> cDuration_actual c =
                 actual_total (filter_logged time_filter now activity_df)
                   (cDate c, cPriority c)
               \<and> ((cDate c, cPriority c)
                     \<notin> activity_keys (filter_logged time_filter now activity_df) \<longrightarrow>
                    cDuration_actual c = 0)
               \<and> ((cDate c, cPriority c)
                     \<notin> schedule_keys (filter_schedule time_filter now schedule_df) \<longrightarrow>
                    cPlanned_Duration c = 0)
               \<and> cDifference c = cDuration_actual c - cPlanned_Duration c)))
   \<and> filter_schedule All_time now schedule_df = schedule_df
   \<and> filter_logged All_time now activity_df = activity_df
   \<and> (schedule_df \<noteq> [] \<and> activity_df \<noteq> [] \<longrightarrow>
        (\<exists>rows. analyze_schedule_vs_actual activity_df schedule_df = Inr rows
           \<and> distinct (map (\<lambda>a. (aDate a, aPriority a)) rows)
           \<and> (\<lambda>a. (aDate a, aPriority a)) ` set rows
               = schedule_keys schedule_df \<union> activity_keys activity_df
           \<and> (\<forall>a\<in>set rows.
                 aPlanned_Duration a = planned_total schedule_df (aDate a, aPriority a)
                 \<and> aDuration a = actual_total activity_df (aDate a, aPriority a)
                 \<and> ((aDate a, aPriority a) \<notin> activity_keys activity_df \<longrightarrow> aDuration a = 0)
                 \<and> ((aDate a, aPriority a) \<notin> schedule_keys schedule_df \<longrightarrow>
                      aPlanned_Duration a = 0))))
   \<and> (schedule_df = [] \<or> activity_df = [] \<longrightarrow>
        (\<exists>message.
           create_plan_vs_actual_analysis time_filter now schedule_df activity_df = Inl message)
        \<and> (\<exists>warning. analyze_schedule_vs_actual activity_df schedule_df = Inl warning))"
proof (intro conjI impI)
  assume ne: "schedule_df \<noteq> [] \<and> activity_df \<noteq> []"
  let ?S = "filter_schedule time_filter now schedule_df"
  let ?L = "filter_logged time_filter now activity_df"
  have run: "create_plan_vs_actual_analysis time_filter now schedule_df activity_df =
          Inr (comparison_df ?S ?L)"
    using ne by (simp add: create_plan_vs_actual_analysis_def)
  show "\<exists>rows. create_plan_vs_actual_analysis time_filter now schedule_df activity_df = Inr rows
         \<and> distinct (map (\<lambda>c. (cDate c, cPriority c)) rows)
         \<and> (\<lambda>c. (cDate c, cPriority c)) ` set rows = schedule_keys ?S \<union> activity_keys ?L
         \<and> (\<forall>c\<in>set rows.
               cPlanned_Duration c = planned_total ?S (cDate c, cPriority c)
               \<and> cDuration_actual c = actual_total ?L (cDate c, cPriority c)
               \<and> ((cDate c, cPriority c) \<notin> activity_keys ?L \<longrightarrow> cDuration_actual c = 0)
               \<and> ((cDate c, cPriority c) \<notin> schedule_keys ?S \<longrightarrow> cPlanned_Duration c = 0)
               \<and> cDifference c = cDuration_actual c - cPlanned_Duration c)"
    by (rule exI [of _ "comparison_df ?S ?L"], rule conjI, rule run,
        rule comparison_df_outer_join)
next
  show "filter_schedule All_time now schedule_df = schedule_df"
    by (simp add: filter_schedule_def)
  show "filter_logged All_time now activity_df = activity_df"
    by (simp add: filter_logged_def)
next
  assume ne: "schedule_df \<noteq> [] \<and> activity_df \<noteq> []"
  let ?as = "map adherence_row (sort_key (\<lambda>m. fst (fst m))
               (merge_outer (planned_hours schedule_df) (actual_hours activity_df)))"
  have run: "analyze_schedule_vs_actual activity_df schedule_df = Inr ?as"
    using ne by (simp add: analyze_schedule_vs_actual_def)
  show "\<exists>rows. analyze_schedule_vs_actual activity_df schedule_df = Inr rows
           \<and> distinct (map (\<lambda>a. (aDate a, aPriority a)) rows)
           \<and> (\<lambda>a. (aDate a, aPriority a)) ` set rows
               = schedule_keys schedule_df \<union> activity_keys activity_df
           \<and> (\<forall>a\<in>set rows.
                 aPlanned_Duration a = planned_total schedule_df (aDate a, aPriority a)
                 \<and> aDuration a = actual_total activity_df (aDate a, aPriority a)
                 \<and> ((aDate a, aPriority a) \<notin> activity_keys activity_df \<longrightarrow> aDuration a = 0)
                 \<and> ((aDate a, aPriority a) \<notin> schedule_keys schedule_df \<longrightarrow>
                      aPlanned_Duration a = 0))"
    by (rule exI [of _ ?as], rule conjI, rule run, rule adherence_outer_join)
next
  assume "schedule_df = [] \<or> activity_df = []"
  then show "\<exists>message.
      create_plan_vs_actual_analysis time_filter now schedule_df activity_df = Inl message"
    by (auto simp: create_plan_vs_actual_analysis_def)
next
  assume "schedule_df = [] \<or> activity_df = []"
  then show "\<exists>warning. analyze_schedule_vs_actual activity_df schedule_df = Inl warning"
    by (auto simp: analyze_schedule_vs_actual_def)
qed

theorem plan_vs_actual_outer_join_witness:
  "(february_plan \<noteq> [] \<and> february_log \<noteq> [])
   \<and> schedule_keys february_plan =
       {(days_from_civil 2025 2 1, ''Career''), (days_from_civil 2025 2 2, ''Fitness''),
        (days_from_civil 2025 2 3, ''Career'')}
   \<and> activity_keys february_log =
       {(days_from_civil 2025 2 2, ''Fitness''), (days_from_civil 2025 2 3, ''Career''),
        (days_from_civil 2025 2 4, ''Music'')}
   \<and> create_plan_vs_actual_analysis All_time february_now february_plan february_log =
       Inr [\<lparr>cDate = days_from_civil 2025 2 1, cPriority = ''Career'', cPlanned_Duration = 2,
             cDuration_actual = 0, cDifference = - 2\<rparr>,
            \<lparr>cDate = days_from_civil 2025 2 2, cPriority = ''Fitness'', cPlanned_Duration = 3,
             cDuration_actual = 1, cDifference = - 2\<rparr>,
            \<lparr>cDate = days_from_civil 2025 2 3, cPriority = ''Career'', cPlanned_Duration = 0,
             cDuration_actual = 3, cDifference = 3\<rparr>,
            \<lparr>cDate = days_from_civil 2025 2 4, cPriority = ''Music'', cPlanned_Duration = 0,
             cDuration_actual = 1, cDifference = 1\<rparr>]
   \<and> create_plan_vs_actual_analysis Last_7_days february_now february_plan february_log =
       Inr [\<lparr>cDate = days_from_civil 2025 2 2, cPriority = ''Fitness'', cPlanned_Duration = 3,
             cDuration_actual = 1, cDifference = - 2\<rparr>,
            \<lparr>cDate = days_from_civil 2025 2 3, cPriority = ''Career'', cPlanned_Duration = 0,
             cDuration_actual = 3, cDifference = 3\<rparr>,
            \<lparr>cDate = days_from_civil 2025 2 4, cPriority = ''Music'', cPlanned_Duration = 0,
             cDuration_actual = 1, cDifference = 1\<rparr>]
   \<and> (\<exists>rows. create_plan_vs_actual_analysis All_time february_now february_plan february_log
                 = Inr rows
         \<and> (\<lambda>c. (cDate c, cPriority c)) ` set rows
             = schedule_keys february_plan \<union> activity_keys february_log)
   \<and> (\<exists>rows. analyze_schedule_vs_actual february_log february_plan = Inr rows
         \<and> map (\<lambda>a. (aDate a, aPriority a)) rows =
             [(days_from_civil 2025 2 1, ''Career''), (days_from_civil 2025 2 2, ''Fitness''),
              (days_from_civil 2025 2 3, ''Career''), (days_from_civil 2025 2 4, ''Music'')])
   \<and> (\<exists>message.
         create_plan_vs_actual_analysis All_time february_now [] february_log = Inl message)
   \<and> (\<exists>warning. analyze_schedule_vs_actual february_log [] = Inl warning)"
proof -
  have ne: "february_plan \<noteq> [] \<and> february_log \<noteq> []"
    by (simp add: february_plan_def february_log_def)
  have ks: "schedule_keys february_plan =
       {(days_from_civil 2025 2 1, ''Career''), (days_from_civil 2025 2 2, ''Fitness''),
        (days_from_civil 2025 2 3, ''Career'')}"
    by code_simp
  have ka: "activity_keys february_log =
       {(days_from_civil 2025 2 2, ''Fitness''), (days_from_civil 2025 2 3, ''Career''),
        (days_from_civil 2025 2 4, ''Music'')}"
    by code_simp
  have table: "create_plan_vs_actual_analysis All_time february_now february_plan february_log =
       Inr [\<lparr>cDate = days_from_civil 2025 2 1, cPriority = ''Career'', cPlanned_Duration = 2,
             cDuration_actual = 0, cDifference = - 2\<rparr>,
            \<lparr>cDate = days_from_civil 2025 2 2, cPriority = ''Fitness'', cPlanned_Duration = 3,
             cDuration_actual = 1, cDifference = - 2\<rparr>,
            \<lparr>cDate = days_from_civil 2025 2 3, cPriority = ''Career'', cPlanned_Duration = 0,
             cDuration_actual = 3, cDifference = 3\<rparr>,
            \<lparr>cDate = days_from_civil 2025 2 4, cPriority = ''Music'', cPlanned_Duration = 0,
             cDuration_actual = 1, cDifference = 1\<rparr>]"
    by code_simp
  have week: "create_plan_vs_actual_analysis Last_7_days february_now february_plan february_log =
       Inr [\<lparr>cDate = days_from_civil 2025 2 2, cPriority = ''Fitness'', cPlanned_Duration = 3,
             cDuration_actual = 1, cDifference = - 2\<rparr>,
            \<lparr>cDate = days_from_civil 2025 2 3, cPriority = ''Career'', cPlanned_Duration = 0,
             cDuration_actual = 3, cDifference = 3\<rparr>,
            \<lparr>cDate = days_from_civil 2025 2 4, cPriority = ''Music'', cPlanned_Duration = 0,
             cDuration_actual = 1, cDifference = 1\<rparr>]"
    by code_simp
  have keys: "map (\<lambda>a. (aDate a, aPriority a))
        (map adherence_row (sort_key (\<lambda>m. fst (fst m))
           (merge_outer (planned_hours february_plan) (actual_hours february_log)))) =
      [(days_from_civil 2025 2 1, ''Career''), (days_from_civil 2025 2 2, ''Fitness''),
       (days_from_civil 2025 2 3, ''Career''), (days_from_civil 2025 2 4, ''Music'')]"
    by code_simp
  note join = plan_vs_actual_outer_join [of february_plan february_log All_time february_now]
  note empty = plan_vs_actual_outer_join [of "[]" february_log All_time february_now]
  note all_s = join [THEN conjunct2, THEN conjunct1]
  note all_l = join [THEN conjunct2, THEN conjunct2, THEN conjunct1]
  from join [THEN conjunct1, rule_format, OF ne]
  obtain crows where
    crun: "create_plan_vs_actual_analysis All_time february_now february_plan february_log
             = Inr crows"
    and ckeys: "(\<lambda>c. (cDate c, cPriority c)) ` set crows
             = schedule_keys (filter_schedule All_time february_now february_plan)
               \<union> activity_keys (filter_logged All_time february_now february_log)"
    by blast
  from ckeys have "(\<lambda>c. (cDate c, cPriority c)) ` set crows
             = schedule_keys february_plan \<union> activity_keys february_log"
    by (simp only: all_s all_l)
  with crun have union: "\<exists>rows.
        create_plan_vs_actual_analysis All_time february_now february_plan february_log
          = Inr rows
        \<and> (\<lambda>c. (cDate c, cPriority c)) ` set rows
            = schedule_keys february_plan \<union> activity_keys february_log"
    by (intro exI [of _ crows] conjI)
  from join [THEN conjunct2, THEN conjunct2, THEN conjunct2, THEN conjunct1, rule_format, OF ne]
  obtain rows where run: "analyze_schedule_vs_actual february_log february_plan = Inr rows"
    by blast
  with ne have "rows = map adherence_row (sort_key (\<lambda>m. fst (fst m))
           (merge_outer (planned_hours february_plan) (actual_hours february_log)))"
    by (simp add: analyze_schedule_vs_actual_def)
  with keys have "map (\<lambda>a. (aDate a, aPriority a)) rows =
             [(days_from_civil 2025 2 1, ''Career''), (days_from_civil 2025 2 2, ''Fitness''),
              (days_from_civil 2025 2 3, ''Career''), (days_from_civil 2025 2 4, ''Music'')]"
    by simp
  with run have rows: "\<exists>rows. analyze_schedule_vs_actual february_log february_plan = Inr rows
         \<and> map (\<lambda>a. (aDate a, aPriority a)) rows =
             [(days_from_civil 2025 2 1, ''Career''), (days_from_civil 2025 2 2, ''Fitness''),
              (days_from_civil 2025 2 3, ''Career''), (days_from_civil 2025 2 4, ''Music'')]"
    by (intro exI [of _ rows] conjI)
  have none: "([]::schedule list) = [] \<or> february_log = []"
    by simp
  note stop = empty [THEN conjunct2, THEN conjunct2, THEN conjunct2, THEN conjunct2,
      rule_format, OF none]
  have msg: "\<exists>message.
      create_plan_vs_actual_analysis All_time february_now [] february_log = Inl message"
    by (rule stop [THEN conjunct1])
  have warn: "\<exists>warning. analyze_schedule_vs_actual february_log [] = Inl warning"
    by (rule stop [THEN conjunct2])
  from ne ks ka table week union rows msg warn show ?thesis
    by (intro conjI) simp_all
qed

text \<open>
  The claim as it is written fails on both reconcilers: with the February schedule and
  an empty activity log, the pair (2025-02-01, Career) is in the schedule, and each
  function returns with a message and no row.
\<close>

theorem plan_vs_actual_empty_log_counterexample:
  "(days_from_civil 2025 2 1, ''Career'') \<in> schedule_keys february_plan
   \<and> analyze_schedule_vs_actual [] february_plan =
       Inl ''No logged activities found. Please log some activities to see the comparison.''
   \<and> create_plan_vs_actual_analysis All_time february_now february_plan [] =
       Inl ''The 'Duration' column is missing in the logged activities data.''"
  by code_simp

section \<open>Streaks\<close>

lemma run_of_days_iff:
  "run_of_days D d n \<longleftrightarrow> 1 \<le> n \<and> (\<forall>i. d - n < i \<and> i \<le> d \<longrightarrow> i \<in> D)"
  by (auto simp: run_of_days_def subset_iff)

lemma run_of_days_end: "run_of_days D d n \<Longrightarrow> d \<in> D"
  by (simp add: run_of_days_iff)

lemma run_of_days_mono: "run_of_days D d n \<Longrightarrow> D \<subseteq> E \<Longrightarrow> run_of_days E d n"
  by (auto simp: run_of_days_iff)

lemma run_below_new_day:
  assumes "run_of_days (insert x P) d n" and "\<forall>y\<in>P. y \<le> l" and "l < x" and "d \<noteq> x"
  shows "run_of_days P d n"
proof -
  from assms(1) have "d \<in> insert x P" by (rule run_of_days_end)
  with assms(4) have "d \<in> P" by simp
  with assms(2,3) have "d < x" by fastforce
  with assms(1) show ?thesis
    by (fastforce simp: run_of_days_iff)
qed

lemma step_consecutive:
  assumes above: "\<forall>y\<in>P. y \<le> l" and run: "run_of_days P l c" and stop: "l - c \<notin> P"
    and ex: "run_of_days P d0 m" and bound: "\<forall>d n. run_of_days P d n \<longrightarrow> n \<le> m"
    and x: "x = l + 1"
  shows "run_of_days (insert x P) x (c + 1)"
    and "x - (c + 1) \<notin> insert x P"
    and "\<exists>d. run_of_days (insert x P) d (max m (c + 1))"
    and "\<forall>d n. run_of_days (insert x P) d n \<longrightarrow> n \<le> max m (c + 1)"
proof -
  from run have c: "1 \<le> c" by (simp add: run_of_days_iff)
  show new: "run_of_days (insert x P) x (c + 1)"
    using run x by (auto simp: run_of_days_iff)
  show "x - (c + 1) \<notin> insert x P"
    using stop x c by auto
  show "\<exists>d. run_of_days (insert x P) d (max m (c + 1))"
  proof (cases "m \<le> c + 1")
    case True
    then have "max m (c + 1) = c + 1" by simp
    with new show ?thesis by auto
  next
    case False
    then have "max m (c + 1) = m" by simp
    moreover have "run_of_days (insert x P) d0 m"
      using ex by (rule run_of_days_mono) auto
    ultimately show ?thesis by auto
  qed
  show "\<forall>d n. run_of_days (insert x P) d n \<longrightarrow> n \<le> max m (c + 1)"
  proof (intro allI impI)
    fix d n assume r: "run_of_days (insert x P) d n"
    show "n \<le> max m (c + 1)"
    proof (cases "d = x")
      case True
      have "n \<le> c + 1"
      proof (rule ccontr)
        assume "\<not> n \<le> c + 1"
        then have "d - n < l - c \<and> l - c \<le> d" using True x c by simp
        with r have "l - c \<in> insert x P" unfolding run_of_days_iff by blast
        with stop x c show False by simp
      qed
      then show ?thesis by simp
    next
      case False
      from run_below_new_day [OF r above _ False] x have "run_of_days P d n" by simp
      with bound have "n \<le> m" by blast
      then show ?thesis by simp
    qed
  qed
qed

lemma step_gap:
  assumes above: "\<forall>y\<in>P. y \<le> l"
    and ex: "run_of_days P d0 m" and bound: "\<forall>d n. run_of_days P d n \<longrightarrow> n \<le> m"
    and x: "l < x" "x - l \<noteq> 1"
  shows "run_of_days (insert x P) x 1"
    and "x - 1 \<notin> insert x P"
    and "\<exists>d. run_of_days (insert x P) d m"
    and "\<forall>d n. run_of_days (insert x P) d n \<longrightarrow> n \<le> m"
proof -
  from ex have m: "1 \<le> m" by (simp add: run_of_days_iff)
  show "run_of_days (insert x P) x 1"
    by (simp add: run_of_days_iff)
  show gap: "x - 1 \<notin> insert x P"
    using above x by fastforce
  have "run_of_days (insert x P) d0 m"
    using ex by (rule run_of_days_mono) auto
  then show "\<exists>d. run_of_days (insert x P) d m" by auto
  show "\<forall>d n. run_of_days (insert x P) d n \<longrightarrow> n \<le> m"
  proof (intro allI impI)
    fix d n assume r: "run_of_days (insert x P) d n"
    show "n \<le> m"
    proof (cases "d = x")
      case True
      have "n \<le> 1"
      proof (rule ccontr)
        assume "\<not> n \<le> 1"
        then have "d - n < x - 1 \<and> x - 1 \<le> d" using True by simp
        with r have "x - 1 \<in> insert x P" unfolding run_of_days_iff by blast
        with gap show False by simp
      qed
      with m show ?thesis by simp
    next
      case False
      from run_below_new_day [OF r above x(1) False] bound show ?thesis by blast
    qed
  qed
qed

lemma streak_loop_runs:
  assumes "finite P" and "l \<in> P" and "\<forall>y\<in>P. y \<le> l"
    and "run_of_days P l c" and "l - c \<notin> P"
    and "\<exists>d. run_of_days P d m" and "\<forall>d n. run_of_days P d n \<longrightarrow> n \<le> m"
    and "sorted (l # rest)" and "distinct (l # rest)"
    and "streak_loop rest (c, m, l) = (c', m', l')"
  shows "l' = Max (P \<union> set rest)
       \<and> run_of_days (P \<union> set rest) l' c'
       \<and> l' - c' \<notin> P \<union> set rest
       \<and> (\<exists>d. run_of_days (P \<union> set rest) d m')
       \<and> (\<forall>d n. run_of_days (P \<union> set rest) d n \<longrightarrow> n \<le> m')"
  using assms
proof (induction rest arbitrary: P l c m)
  case Nil
  then have "Max P = l" by (intro Max_eqI) auto
  with Nil show ?case by simp
next
  case (Cons x rest)
  from Cons.prems(8,9) have lx: "l < x" by auto
  from Cons.prems(8,9) have sorted: "sorted (x # rest)" and dist: "distinct (x # rest)"
    by simp_all
  from Cons.prems(6) obtain d0 where d0: "run_of_days P d0 m" by blast
  have fin: "finite (insert x P)" using Cons.prems(1) by simp
  have mem: "x \<in> insert x P" by simp
  have above: "\<forall>y\<in>insert x P. y \<le> x" using Cons.prems(3) lx by fastforce
  have un: "insert x P \<union> set rest = P \<union> set (x # rest)" by simp
  show ?case
  proof (cases "x - l = 1")
    case True
    then have x: "x = l + 1" by simp
    note s = step_consecutive [OF Cons.prems(3) Cons.prems(4) Cons.prems(5) d0 Cons.prems(7) x]
    from Cons.prems(10) True
    have loop: "streak_loop rest (c + 1, max m (c + 1), x) = (c', m', l')" by simp
    from Cons.IH [OF fin mem above s(1) s(2) s(3) s(4) sorted dist loop]
    show ?thesis unfolding un .
  next
    case False
    note s = step_gap [OF Cons.prems(3) d0 Cons.prems(7) lx False]
    from Cons.prems(10) False
    have loop: "streak_loop rest (1, m, x) = (c', m', l')" by simp
    have stop: "x - 1 \<notin> insert x P" by (rule s(2))
    from Cons.IH [OF fin mem above s(1) stop s(3) s(4) sorted dist loop]
    show ?thesis unfolding un .
  qed
qed

lemma unique_set: "set (unique xs) = set xs"
  by (simp add: unique_def)

lemma unique_distinct: "distinct (unique xs)"
  by (simp add: unique_def)

lemma priority_dates_set: "set (priority_dates df p) = active_days df p"
  by (auto simp: priority_dates_def unique_set active_days_def)

lemma priority_dates_sorted: "sorted (priority_dates df p)"
  by (simp add: priority_dates_def)

lemma priority_dates_distinct: "distinct (priority_dates df p)"
  by (simp add: priority_dates_def unique_distinct)

lemma single_day_runs:
  "run_of_days {d0} d0 1" "d0 - 1 \<notin> {d0}" "\<exists>d. run_of_days {d0} d 1"
  "\<forall>d n. run_of_days {d0} d n \<longrightarrow> n \<le> 1"
proof -
  show one: "run_of_days {d0} d0 1" by (simp add: run_of_days_iff)
  then show "\<exists>d. run_of_days {d0} d 1" by blast
  show "d0 - 1 \<notin> {d0}" by simp
  show "\<forall>d n. run_of_days {d0} d n \<longrightarrow> n \<le> 1"
  proof (intro allI impI, rule ccontr)
    fix d n assume r: "run_of_days {d0} d n" and "\<not> n \<le> 1"
    then have "d - n < d - 1 \<and> d - 1 \<le> d" by simp
    with r have "d - 1 \<in> {d0}" unfolding run_of_days_iff by blast
    moreover from r have "d \<in> {d0}" by (rule run_of_days_end)
    ultimately show False by simp
  qed
qed

lemma priority_streak_runs:
  assumes "p \<in> Priority ` set df"
  shows "\<exists>s. priority_streak df p = Inr s \<and> streak_of_days (active_days df p) s"
proof -
  from assms have "active_days df p \<noteq> {}"
    by (auto simp: active_days_def)
  then have "priority_dates df p \<noteq> []"
    using priority_dates_set [of df p] by auto
  then obtain d0 rest where dates: "priority_dates df p = d0 # rest"
    by (cases "priority_dates df p") auto
  have days: "active_days df p = {d0} \<union> set rest"
    using priority_dates_set [of df p] dates by simp
  have sorted: "sorted (d0 # rest)" and dist: "distinct (d0 # rest)"
    using priority_dates_sorted [of df p] priority_dates_distinct [of df p] dates by simp_all
  obtain c m l where loop: "streak_loop rest (1, 1, d0) = (c, m, l)"
    by (cases "streak_loop rest (1, 1, d0)")
  have fin: "finite {d0}" and mem: "d0 \<in> {d0}" and above: "\<forall>y\<in>{d0}. y \<le> d0"
    by simp_all
  have walk: "l = Max (active_days df p)
       \<and> run_of_days (active_days df p) l c
       \<and> l - c \<notin> active_days df p
       \<and> (\<exists>d. run_of_days (active_days df p) d m)
       \<and> (\<forall>d n. run_of_days (active_days df p) d n \<longrightarrow> n \<le> m)"
    using streak_loop_runs [OF fin mem above single_day_runs sorted dist loop]
    unfolding days .
  have "fold max rest d0 = Max (set (d0 # rest))"
    by (rule Max.set_eq_fold [symmetric])
  then have last: "fold max rest d0 = Max (active_days df p)"
    using days by simp
  let ?s = "\<lparr>current_streak = c, max_streak = m, last_activity = fold max rest d0\<rparr>"
  have "priority_streak df p = Inr ?s"
    by (simp add: priority_streak_def dates loop)
  moreover have "streak_of_days (active_days df p) ?s"
    unfolding streak_of_days_def using walk last by auto
  ultimately show ?thesis by blast
qed

lemma streaks_loop_entries:
  assumes "\<forall>p\<in>set ps. \<exists>s. priority_streak df p = Inr s"
  shows "\<exists>m. streaks_loop df ps = Inr m \<and> map fst m = ps
           \<and> (\<forall>p s. (p, s) \<in> set m \<longrightarrow> priority_streak df p = Inr s)"
  using assms
proof (induction ps)
  case Nil
  then show ?case by simp
next
  case (Cons p ps)
  from Cons.prems obtain s where s: "priority_streak df p = Inr s" by auto
  from Cons.prems have "\<forall>q\<in>set ps. \<exists>s. priority_streak df q = Inr s" by simp
  from Cons.IH [OF this] obtain m where
    m: "streaks_loop df ps = Inr m" "map fst m = ps"
      "\<forall>q t. (q, t) \<in> set m \<longrightarrow> priority_streak df q = Inr t"
    by blast
  have "streaks_loop df (p # ps) = Inr ((p, s) # m)"
    by (simp add: s m(1))
  moreover have "map fst ((p, s) # m) = p # ps"
    by (simp add: m(2))
  moreover have "\<forall>q t. (q, t) \<in> set ((p, s) # m) \<longrightarrow> priority_streak df q = Inr t"
    using s m(3) by auto
  ultimately show ?case by (intro exI [of _ "(p, s) # m"] conjI)
qed

text \<open>
  Claim C5. For every set of activity records \<^verbatim>\<open>calculate_streaks\<close> returns a mapping
  with one entry per priority of the set. With the distinct calendar dates of a
  priority, \<^verbatim>\<open>last_activity\<close> is the latest date, \<^verbatim>\<open>current\<close> is the length of the run
  of consecutive dates that ends at the latest date (the day before the run is not a
  date of the priority, and today's date plays no part), and \<^verbatim>\<open>max\<close> is the length of
  the longest run of consecutive dates. For the empty set the mapping is empty. The
  witness is the log with Fitness on 2025-01-01, 01-02, 01-03 and 01-05: max 3,
  current 1, last activity 2025-01-05.
\<close>

theorem streaks_are_runs_of_days:
  "calculate_streaks [] = Inr []
   \<and> (\<exists>m. calculate_streaks df = Inr m
         \<and> map fst m = unique (map Priority df)
         \<and> (\<forall>p\<in>Priority ` set df.
               \<exists>s. map_of m p = Some s \<and> streak_of_days (active_days df p) s))"
proof (intro conjI)
  show "calculate_streaks [] = Inr []"
    by (simp add: calculate_streaks_def)
  let ?ps = "unique (map Priority df)"
  have ps: "set ?ps = Priority ` set df"
    by (simp add: unique_set)
  have "\<forall>p\<in>set ?ps. \<exists>s. priority_streak df p = Inr s"
  proof
    fix p assume "p \<in> set ?ps"
    then have "p \<in> Priority ` set df" by (simp only: ps)
    from priority_streak_runs [OF this] show "\<exists>s. priority_streak df p = Inr s"
      by blast
  qed
  from streaks_loop_entries [OF this] obtain m where
    loop: "streaks_loop df ?ps = Inr m" and keys: "map fst m = ?ps"
    and entries: "\<forall>p s. (p, s) \<in> set m \<longrightarrow> priority_streak df p = Inr s"
    by blast
  have run: "calculate_streaks df = Inr m"
  proof (cases "df = []")
    case True
    with loop show ?thesis by (simp add: calculate_streaks_def unique_def)
  next
    case False
    with loop show ?thesis by (simp add: calculate_streaks_def)
  qed
  have dist: "distinct (map fst m)"
    by (simp only: keys unique_distinct)
  have each: "\<exists>s. map_of m p = Some s \<and> streak_of_days (active_days df p) s"
    if p: "p \<in> Priority ` set df" for p
  proof -
    have "fst ` set m = set (map fst m)" by simp
    with p ps keys have "p \<in> fst ` set m" by simp
    then obtain s where mem: "(p, s) \<in> set m" by auto
    with dist have look: "map_of m p = Some s" by (rule map_of_is_SomeI)
    from entries mem have s: "priority_streak df p = Inr s" by blast
    from priority_streak_runs [OF p] obtain s' where
      "priority_streak df p = Inr s'" and "streak_of_days (active_days df p) s'"
      by blast
    with s have "streak_of_days (active_days df p) s" by simp
    with look show ?thesis by blast
  qed
  show "\<exists>m. calculate_streaks df = Inr m
         \<and> map fst m = unique (map Priority df)
         \<and> (\<forall>p\<in>Priority ` set df.
               \<exists>s. map_of m p = Some s \<and> streak_of_days (active_days df p) s)"
  proof (intro exI [of _ m] conjI ballI)
    show "calculate_streaks df = Inr m" by (rule run)
    show "map fst m = unique (map Priority df)" by (rule keys)
    fix p assume "p \<in> Priority ` set df"
    then show "\<exists>s. map_of m p = Some s \<and> streak_of_days (active_days df p) s"
      by (rule each)
  qed
qed

theorem streaks_are_runs_of_days_witness:
  "calculate_streaks example_log =
     Inr [(''Fitness'', \<lparr>current_streak = 1, max_streak = 3,
                         last_activity = days_from_civil 2025 1 5\<rparr>),
          (''Career'', \<lparr>current_streak = 1, max_streak = 1,
                        last_activity = days_from_civil 2025 1 5\<rparr>)]
   \<and> ''Fitness'' \<in> Priority ` set example_log
   \<and> active_days example_log ''Fitness'' =
       {days_from_civil 2025 1 1, days_from_civil 2025 1 2, days_from_civil 2025 1 3,
        days_from_civil 2025 1 5}
   \<and> streak_of_days (active_days example_log ''Fitness'')
        \<lparr>current_streak = 1, max_streak = 3, last_activity = days_from_civil 2025 1 5\<rparr>
   \<and> Max (active_days example_log ''Fitness'') = days_from_civil 2025 1 5
   \<and> run_of_days (active_days example_log ''Fitness'') (days_from_civil 2025 1 3) 3"
proof -
  let ?s = "\<lparr>current_streak = 1, max_streak = 3, last_activity = days_from_civil 2025 1 5\<rparr>"
  let ?m = "[(''Fitness'', ?s),
          (''Career'', \<lparr>current_streak = 1, max_streak = 1,
                        last_activity = days_from_civil 2025 1 5\<rparr>)]"
  have run: "calculate_streaks example_log = Inr ?m"
    by code_simp
  have fitness: "''Fitness'' \<in> Priority ` set example_log"
    by code_simp
  have days: "active_days example_log ''Fitness'' =
       {days_from_civil 2025 1 1, days_from_civil 2025 1 2, days_from_civil 2025 1 3,
        days_from_civil 2025 1 5}"
    by code_simp
  have three: "run_of_days (active_days example_log ''Fitness'') (days_from_civil 2025 1 3) 3"
    by code_simp
  from streaks_are_runs_of_days [of example_log, THEN conjunct2]
  obtain m where m: "calculate_streaks example_log = Inr m"
    and all: "\<forall>p\<in>Priority ` set example_log.
               \<exists>s. map_of m p = Some s \<and> streak_of_days (active_days example_log p) s"
    by blast
  from m run have "m = ?m" by simp
  moreover from all fitness obtain s where
    "map_of m ''Fitness'' = Some s" and "streak_of_days (active_days example_log ''Fitness'') s"
    by blast
  ultimately have streak: "streak_of_days (active_days example_log ''Fitness'') ?s"
    by simp
  then have last: "Max (active_days example_log ''Fitness'') = days_from_civil 2025 1 5"
    by (simp add: streak_of_days_def)
  from run fitness days streak last three show ?thesis
    by (intro conjI)
qed

end
